theory Spec2Isabelle
  imports Complex_Main
begin

unbundle bit_operations_syntax

section \<open>Conventions of the embedding\<close>

text \<open>
  The ocean code of the engine is embedded as follows: the Gerstner ocean of
  \<^verbatim>\<open>Ocean.hpp\<close> and \<^verbatim>\<open>Ocean.cpp\<close>, the vertex shaders \<^verbatim>\<open>ocean.vert\<close> and
  \<^verbatim>\<open>ocean_simple.vert\<close>, and the spectral ocean, class \<^verbatim>\<open>OceanFFT\<close>, declared in
  \<^verbatim>\<open>OceanFFT.hpp\<close> (the source file \<^verbatim>\<open>unnamed/part_000\<close>) and implemented in the
  source file \<^verbatim>\<open>unnamed/part_004\<close>.

  \<^item> A C++ or GLSL \<^verbatim>\<open>float\<close> is a \<^typ>\<open>real\<close>: arithmetic is exact, and rounding,
    overflow, infinities and NaN are outside the model. A decimal literal such as
    \<^verbatim>\<open>0.8f\<close> is the rational it denotes. Where the source divides or takes a
    square root, HOL gives a value also when the divisor is zero or the radicand
    negative, and the program an infinity or NaN: the definitions are the program
    only where every divisor is non-zero and every radicand non-negative, and the
    theorems carry these conditions as hypotheses.
  \<^item> A C++ \<^verbatim>\<open>int\<close> is an \<^typ>\<open>int\<close>; the theorems that depend on integer
    arithmetic of the grid carry the bound under which the 32-bit computation does
    not overflow. A loop counter that starts at zero and counts up is a
    \<^typ>\<open>nat\<close>, converted where the source mixes it with an int or a float.
  \<^item> \<^verbatim>\<open>glm::vec2\<close> and \<^verbatim>\<open>glm::vec3\<close> are pairs and triples of reals.
  \<^item> A \<^verbatim>\<open>std::vector\<close> is a list; member variables of a class are the fields of
    a record that every member function takes and returns.
  \<^item> Handles of the graphics API (buffers, textures, shader programs) carry no data of
    the wave model and are not part of the records. The one outcome of the graphics
    layer that the control flow reads, whether the rendering shaders could be loaded,
    is a parameter.
\<close>

type_synonym vec2 = "real \<times> real"
type_synonym vec3 = "real \<times> real \<times> real"

definition dot2 :: "vec2 \<Rightarrow> vec2 \<Rightarrow> real" where
  "dot2 a b = fst a * fst b + snd a * snd b"

definition length2 :: "vec2 \<Rightarrow> real" where
  "length2 v = sqrt (dot2 v v)"

text \<open>\<^verbatim>\<open>glm::normalize(v) = v * inversesqrt(dot(v, v))\<close>.\<close>

definition normalize2 :: "vec2 \<Rightarrow> vec2" where
  "normalize2 v = (fst v * (1 / sqrt (dot2 v v)), snd v * (1 / sqrt (dot2 v v)))"

text \<open>\<^verbatim>\<open>glm::mix(x, y, a) = x * (1 - a) + y * a\<close>, componentwise.\<close>

definition mix2 :: "vec2 \<Rightarrow> vec2 \<Rightarrow> real \<Rightarrow> vec2" where
  "mix2 x y a = (fst x * (1 - a) + fst y * a, snd x * (1 - a) + snd y * a)"

definition dot3 :: "vec3 \<Rightarrow> vec3 \<Rightarrow> real" where
  "dot3 a b = (case a of (ax, ay, az) \<Rightarrow> case b of (bx, by, bz) \<Rightarrow> ax * bx + ay * by + az * bz)"

definition normalize3 :: "vec3 \<Rightarrow> vec3" where
  "normalize3 v = (case v of (x, y, z) \<Rightarrow>
     (x * (1 / sqrt (dot3 v v)), y * (1 / sqrt (dot3 v v)), z * (1 / sqrt (dot3 v v))))"

definition cross3 :: "vec3 \<Rightarrow> vec3 \<Rightarrow> vec3" where
  "cross3 a b = (case a of (ax, ay, az) \<Rightarrow> case b of (bx, by, bz) \<Rightarrow>
     (ay * bz - by * az, az * bx - bz * ax, ax * by - bx * ay))"

definition add3 :: "vec3 \<Rightarrow> vec3 \<Rightarrow> vec3" where
  "add3 a b = (case a of (ax, ay, az) \<Rightarrow> case b of (bx, by, bz) \<Rightarrow> (ax + bx, ay + by, az + bz))"

section \<open>The Gerstner ocean (\<^verbatim>\<open>Ocean.hpp\<close>, \<^verbatim>\<open>Ocean.cpp\<close>)\<close>

record OceanConfig =
  resolution :: int
  size_w :: real
  windDirection :: vec2
  windSpeed :: real
  waveAmplitude :: real
  waveFrequency :: real
  numWaves :: int
  deepColor :: vec3
  shallowColor :: vec3
  fresnelStrength :: real
  specularStrength :: real
  roughness :: real
  transparency :: real
  refractionStrength :: real

text \<open>The defaults of the member initialisers of \<^verbatim>\<open>Ocean::OceanConfig\<close>.\<close>

definition OceanConfig_default :: OceanConfig where
  "OceanConfig_default =
     \<lparr> resolution = 256, size_w = 1000, windDirection = (1, 0.5), windSpeed = 25,
       waveAmplitude = 2, waveFrequency = 0.02, numWaves = 6,
       deepColor = (0, 0.1, 0.3), shallowColor = (0.1, 0.6, 0.8),
       fresnelStrength = 2, specularStrength = 100, roughness = 0.02,
       transparency = 0.8, refractionStrength = 0.1 \<rparr>"

record Wave =
  direction :: vec2
  amplitude :: real
  frequency :: real
  phase :: real
  steepness :: real

record Ocean =
  vertices :: "vec3 list"
  normals :: "vec3 list"
  texCoords :: "vec2 list"
  indices :: "nat list"
  config :: OceanConfig
  time :: real
  isInitialized :: bool

text \<open>The state the constructor \<^verbatim>\<open>Ocean::Ocean()\<close> leaves.\<close>

definition Ocean_new :: Ocean where
  "Ocean_new =
     \<lparr> vertices = [], normals = [], texCoords = [], indices = [],
       config = OceanConfig_default, time = 0, isInitialized = False \<rparr>"

subsection \<open>\<^verbatim>\<open>Ocean::GenerateWaveSet\<close>\<close>

text \<open>The body of the loop over \<^verbatim>\<open>i\<close>: the wave that iteration \<open>i\<close> pushes.\<close>

definition GenerateWaveSet_wave :: "OceanConfig \<Rightarrow> nat \<Rightarrow> Wave" where
  "GenerateWaveSet_wave cfg i =
     (let windDir = normalize2 (windDirection cfg);
          baseFreq = waveFrequency cfg;
          baseAmp = waveAmplitude cfg;
          angle = real i * 0.785398;
          dir = (cos angle, sin angle);
          freq = baseFreq * (1 + real i * 0.3);
          amp = baseAmp / (1 + real i * 0.5)
      in \<lparr> direction = mix2 dir windDir 0.7,
           amplitude = amp,
           frequency = freq,
           phase = real i * 1.57079,
           steepness = 0.8 / (freq * amp * real_of_int (numWaves cfg)) \<rparr>)"

text \<open>
  For a negative wave count \<^verbatim>\<open>waves.reserve(config.numWaves)\<close> throws
  \<^verbatim>\<open>std::length_error\<close> and the function does not return. The definition is the
  function for a count that is not negative; the theorems about it assume as much.
  Each wave divides by \<open>frequency \<cdot> amplitude \<cdot> numWaves\<close>, and the wind direction is
  normalised.
\<close>

definition GenerateWaveSet :: "OceanConfig \<Rightarrow> Wave list" where
  "GenerateWaveSet cfg =
     fold (\<lambda>i waves. waves @ [GenerateWaveSet_wave cfg i]) [0..<nat (numWaves cfg)] []"

subsection \<open>\<^verbatim>\<open>Ocean::SampleWaveHeight\<close>\<close>

definition SampleWaveHeight :: "Ocean \<Rightarrow> real \<Rightarrow> real \<Rightarrow> real \<Rightarrow> real" where
  "SampleWaveHeight s x z currentTime0 =
     (let currentTime = (if currentTime0 < 0 then time s else currentTime0);
          pos = (x, z);
          waves = GenerateWaveSet (config s)
      in fold (\<lambda>wave height.
            let c = sqrt (9.8 / frequency wave);
                d = normalize2 (direction wave);
                theta = dot2 d pos * frequency wave + currentTime * c + phase wave
            in height + amplitude wave * sin theta) waves 0)"

subsection \<open>\<^verbatim>\<open>Ocean::CalculateGerstnerWave\<close>\<close>

text \<open>
  The function returns the displacement and adds to the tangent and the binormal it
  receives by reference: the model returns all three. It divides by the frequency
  (under a square root), by the length of the direction and by
  \<open>frequency \<cdot> amplitude \<cdot> numWaves\<close>; the definition is the function where the
  frequency is positive and the direction, the amplitude and the wave count are not
  zero. The same holds of \<^verbatim>\<open>GerstnerWave\<close> in \<^verbatim>\<open>ocean.vert\<close> below.
\<close>

definition CalculateGerstnerWave ::
    "OceanConfig \<Rightarrow> vec2 \<Rightarrow> Wave \<Rightarrow> real \<Rightarrow> vec3 \<Rightarrow> vec3 \<Rightarrow> vec3 \<times> vec3 \<times> vec3" where
  "CalculateGerstnerWave cfg position wave currentTime tangent binormal =
     (let c = sqrt (9.8 / frequency wave);
          d = normalize2 (direction wave);
          f = frequency wave;
          a = amplitude wave;
          phi = phase wave;
          q = steepness wave / (frequency wave * a * real_of_int (numWaves cfg));
          theta = dot2 d position * f + currentTime * c + phi;
          sinTheta = sin theta;
          cosTheta = cos theta;
          displacement = (q * a * fst d * cosTheta, a * sinTheta, q * a * snd d * cosTheta);
          tangent' = add3 tangent
            (- q * fst d * fst d * f * a * sinTheta,
             fst d * f * a * cosTheta,
             - q * fst d * snd d * f * a * sinTheta);
          binormal' = add3 binormal
            (- q * fst d * snd d * f * a * sinTheta,
             snd d * f * a * cosTheta,
             - q * snd d * snd d * f * a * sinTheta)
      in (displacement, tangent', binormal'))"

subsection \<open>\<^verbatim>\<open>Ocean::GenerateMesh\<close> and \<^verbatim>\<open>Ocean::GenerateIndices\<close>\<close>

text \<open>The body of the inner loop of \<^verbatim>\<open>GenerateMesh\<close>, at row \<open>z\<close> and column \<open>x\<close>.\<close>

definition GenerateMesh_vertex :: "nat \<Rightarrow> nat \<Rightarrow> Ocean \<Rightarrow> Ocean" where
  "GenerateMesh_vertex z x s =
     (let halfSize = size_w (config s) * 0.5;
          stepSize = size_w (config s) / real_of_int (resolution (config s));
          worldX = - halfSize + real x * stepSize;
          worldZ = - halfSize + real z * stepSize
      in s\<lparr> vertices := vertices s @ [(worldX, 0, worldZ)],
             normals := normals s @ [(0, 1, 0)],
             texCoords := texCoords s @
               [(real x / real_of_int (resolution (config s)),
                 real z / real_of_int (resolution (config s)))] \<rparr>)"

text \<open>The body of the inner loop of \<^verbatim>\<open>GenerateIndices\<close>: two triangles per cell.\<close>

definition GenerateIndices_cell :: "nat \<Rightarrow> nat \<Rightarrow> Ocean \<Rightarrow> Ocean" where
  "GenerateIndices_cell z x s =
     (let topLeft = int z * (resolution (config s) + 1) + int x;
          topRight = topLeft + 1;
          bottomLeft = (int z + 1) * (resolution (config s) + 1) + int x;
          bottomRight = bottomLeft + 1
      in s\<lparr> indices := indices s @
             [nat topLeft, nat bottomLeft, nat topRight,
              nat topRight, nat bottomLeft, nat bottomRight] \<rparr>)"

definition GenerateIndices :: "Ocean \<Rightarrow> Ocean" where
  "GenerateIndices s =
     (let s1 = s\<lparr> indices := [] \<rparr>
      in fold (\<lambda>z. fold (\<lambda>x. GenerateIndices_cell z x) [0..<nat (resolution (config s1))])
           [0..<nat (resolution (config s1))] s1)"

text \<open>
  The loops of \<^verbatim>\<open>GenerateMesh\<close> run while \<^verbatim>\<open>z <= config.resolution\<close>, that is
  \<open>resolution + 1\<close> times when the resolution is not negative and never otherwise.
\<close>

definition GenerateMesh :: "Ocean \<Rightarrow> Ocean" where
  "GenerateMesh s =
     (let s1 = s\<lparr> vertices := [], normals := [], texCoords := [] \<rparr>;
          s2 = fold (\<lambda>z. fold (\<lambda>x. GenerateMesh_vertex z x) [0..<nat (resolution (config s1) + 1)])
                 [0..<nat (resolution (config s1) + 1)] s1
      in GenerateIndices s2)"

subsection \<open>\<^verbatim>\<open>Ocean::SetConfig\<close>\<close>

text \<open>\<^verbatim>\<open>UpdateMeshData\<close> only binds and unbinds a buffer.\<close>

definition UpdateMeshData :: "Ocean \<Rightarrow> Ocean" where
  "UpdateMeshData s = s"

text \<open>\<^verbatim>\<open>SetConfig\<close> returns \<^verbatim>\<open>void\<close>: the model returns the new state only.\<close>

definition Ocean_SetConfig :: "OceanConfig \<Rightarrow> Ocean \<Rightarrow> Ocean" where
  "Ocean_SetConfig cfg s =
     (let s1 = s\<lparr> config := cfg \<rparr>
      in if isInitialized s1 then UpdateMeshData (GenerateMesh s1) else s1)"

section \<open>The vertex shaders\<close>

subsection \<open>\<^verbatim>\<open>shaders/ocean.vert\<close>\<close>

text \<open>The uniforms of the wave model. The GLSL \<^verbatim>\<open>struct Wave\<close> has the fields of the C++ one.\<close>

record ocean_vert_uniforms =
  u_time :: real
  u_windDirection :: vec2
  u_windSpeed :: real
  u_waveAmplitude :: real
  u_waveFrequency :: real
  u_numWaves :: int

definition GerstnerWave ::
    "int \<Rightarrow> vec2 \<Rightarrow> Wave \<Rightarrow> real \<Rightarrow> vec3 \<Rightarrow> vec3 \<Rightarrow> vec3 \<times> vec3 \<times> vec3" where
  "GerstnerWave numWaves_u pos wave time_u tangent binormal =
     (let c = sqrt (9.8 / frequency wave);
          d = normalize2 (direction wave);
          f = frequency wave;
          a = amplitude wave;
          phi = phase wave;
          q = steepness wave / (frequency wave * a * real_of_int numWaves_u);
          theta = dot2 d pos * f + time_u * c + phi;
          sinTheta = sin theta;
          cosTheta = cos theta;
          displacement = (q * a * fst d * cosTheta, a * sinTheta, q * a * snd d * cosTheta);
          tangent' = add3 tangent
            (- q * fst d * fst d * f * a * sinTheta,
             fst d * f * a * cosTheta,
             - q * fst d * snd d * f * a * sinTheta);
          binormal' = add3 binormal
            (- q * fst d * snd d * f * a * sinTheta,
             snd d * f * a * cosTheta,
             - q * snd d * snd d * f * a * sinTheta)
      in (displacement, tangent', binormal'))"

text \<open>The wave that the first loop of \<^verbatim>\<open>main\<close> stores in \<^verbatim>\<open>waves[i]\<close>.\<close>

definition ocean_vert_wave :: "ocean_vert_uniforms \<Rightarrow> nat \<Rightarrow> Wave" where
  "ocean_vert_wave u i =
     (let windDir = normalize2 (u_windDirection u);
          baseFreq = u_waveFrequency u;
          baseAmp = u_waveAmplitude u;
          angle = real i * 0.785398;
          dir = mix2 (cos angle, sin angle) windDir 0.7;
          freq = baseFreq * (1 + real i * 0.3);
          amp = baseAmp / (1 + real i * 0.5)
      in \<lparr> direction = dir,
           amplitude = amp,
           frequency = freq,
           phase = real i * 1.57079,
           steepness = 0.8 / (freq * amp * real_of_int (u_numWaves u)) \<rparr>)"

definition ocean_vert_waves :: "ocean_vert_uniforms \<Rightarrow> Wave list" where
  "ocean_vert_waves u =
     fold (\<lambda>i waves. waves @ [ocean_vert_wave u i]) [0..<nat (min (u_numWaves u) 8)] []"

subsection \<open>\<^verbatim>\<open>shaders/ocean_simple.vert\<close>\<close>

text \<open>
  The shader that \<^verbatim>\<open>Ocean::Initialize\<close> loads. Its \<^verbatim>\<open>main\<close> moves the world position
  of the vertex; the model returns the moved position.
\<close>

definition ocean_simple_vert_main :: "real \<Rightarrow> real \<Rightarrow> vec3 \<Rightarrow> vec3" where
  "ocean_simple_vert_main time_u waveAmplitude_u worldPos =
     (case worldPos of (wx, wy, wz) \<Rightarrow>
        let wy1 = wy + sin (wx * 0.1 + time_u) * waveAmplitude_u * 0.1;
            wy2 = wy1 + cos (wz * 0.15 + time_u * 0.8) * waveAmplitude_u * 0.05
        in (wx, wy2, wz))"

section \<open>The spectral ocean (class \<^verbatim>\<open>OceanFFT\<close>)\<close>

text \<open>
  The members of \<^verbatim>\<open>OceanFFT\<close> whose names the class \<^verbatim>\<open>Ocean\<close> also uses carry the
  class name. The fields \<^verbatim>\<open>A\<close> and \<^verbatim>\<open>L\<close> of \<^verbatim>\<open>WaveParameters\<close> are \<open>A_wp\<close> and
  \<open>L_wp\<close>.
\<close>

record WaveParameters =
  A_wp :: real
  windSpeed_wp :: vec2
  windDirection_wp :: vec2
  lambda :: real
  L_wp :: real
  damping :: real
  gravity :: real

definition WaveParameters_default :: WaveParameters where
  "WaveParameters_default =
     \<lparr> A_wp = 0.0001, windSpeed_wp = (32, 32), windDirection_wp = (1, 1), lambda = - 1,
       L_wp = 200, damping = 0.001, gravity = 9.81 \<rparr>"

record OceanFFT_OceanConfig =
  N :: int
  oceanSize :: real
  timeScale :: real
  enableChoppiness :: bool
  enableFoam :: bool
  foamThreshold :: real

definition OceanFFT_OceanConfig_default :: OceanFFT_OceanConfig where
  "OceanFFT_OceanConfig_default =
     \<lparr> N = 512, oceanSize = 1000, timeScale = 1, enableChoppiness = True,
       enableFoam = True, foamThreshold = 0.8 \<rparr>"

text \<open>
  \<^verbatim>\<open>struct Complex { float real, imag; }\<close>, with its product. Its constructor
  \<^verbatim>\<open>Complex(float r = 0.0f, float i = 0.0f)\<close> also converts a float \<open>r\<close> to
  \<open>Cplx r 0\<close> where an operand of type \<^verbatim>\<open>Complex\<close> is expected.
\<close>

datatype Cplx = Cplx (real_c: real) (imag_c: real)

definition Cplx_mul :: "Cplx \<Rightarrow> Cplx \<Rightarrow> Cplx" where
  "Cplx_mul a b =
     Cplx (real_c a * real_c b - imag_c a * imag_c b) (real_c a * imag_c b + imag_c a * real_c b)"

text \<open>
  The random source: \<open>gaussianDist\<close> is the sequence of numbers that the successive
  calls \<^verbatim>\<open>gaussianDist(rng)\<close> return (the standard library fixes it for the seed 42 of
  the constructor; here it is a parameter), and \<open>rng\<close> counts the calls made so far.
  The distribution object is constructed as \<^verbatim>\<open>gaussianDist(0.0f, 1.0f)\<close>, a normal
  distribution of mean 0 and standard deviation 1.

  \<^verbatim>\<open>GetGaussianRandom\<close> makes two calls in the argument list of one constructor call,
  and C++ leaves open which of the two runs first; compilers differ. \<open>real_first\<close> is
  that choice, a second parameter: \<open>real_first s r\<close> says whether, at the call of
  \<^verbatim>\<open>GetGaussianRandom\<close> made when \<open>r\<close> numbers have been drawn, the argument of the real
  part is evaluated first.
\<close>

record OceanFFT =
  waveParams :: WaveParameters
  config_fft :: OceanFFT_OceanConfig
  initialSpectrum :: "Cplx list"
  vertices_fft :: "real list"
  indices_fft :: "nat list"
  time_fft :: real
  isInitialized_fft :: bool
  gaussianDist :: "nat \<Rightarrow> real"
  rng :: nat
  real_first :: "nat \<Rightarrow> bool"

definition OceanFFT_new :: "(nat \<Rightarrow> real) \<Rightarrow> (nat \<Rightarrow> bool) \<Rightarrow> OceanFFT" where
  "OceanFFT_new g first =
     \<lparr> waveParams = WaveParameters_default, config_fft = OceanFFT_OceanConfig_default,
       initialSpectrum = [], vertices_fft = [], indices_fft = [], time_fft = 0,
       isInitialized_fft = False, gaussianDist = g, rng = 0, real_first = first \<rparr>"

definition PI :: real where
  "PI = 3.14159265359"

subsection \<open>Utilities\<close>

text \<open>
  \<^verbatim>\<open>value > 0 && (value & (value - 1)) == 0\<close>: the subtraction is only evaluated for
  a positive value, so it cannot overflow.
\<close>

definition IsPowerOfTwo :: "int \<Rightarrow> bool" where
  "IsPowerOfTwo v = (v > 0 \<and> v AND (v - 1) = 0)"

text \<open>The quotient \<^verbatim>\<open>a / b\<close> of two C++ ints truncates towards zero.\<close>

definition int_div :: "int \<Rightarrow> int \<Rightarrow> int" where
  "int_div a b = sgn a * sgn b * (\<bar>a\<bar> div \<bar>b\<bar>)"

text \<open>The definition is the function where \<^verbatim>\<open>config.oceanSize\<close> is not zero.\<close>

definition GetWaveVector :: "OceanFFT \<Rightarrow> int \<Rightarrow> int \<Rightarrow> vec2" where
  "GetWaveVector s n m =
     (let kx = (2 * PI * real_of_int (n - int_div (N (config_fft s)) 2)) / oceanSize (config_fft s);
          kz = (2 * PI * real_of_int (m - int_div (N (config_fft s)) 2)) / oceanSize (config_fft s)
      in (kx, kz))"

subsection \<open>\<^verbatim>\<open>OceanFFT::PhillipsSpectrum\<close>\<close>

text \<open>
  After the guard the function divides by the length of the wavevector, by the length
  of the wind direction (in \<^verbatim>\<open>glm::normalize\<close>), by the gravity and by
  \<open>kLength2 \<cdot> L \<cdot> L\<close>, which is zero when the wind speed is. The definition is the
  function where the wind direction, the wind speed and the gravity are not zero.
\<close>

definition PhillipsSpectrum :: "OceanFFT \<Rightarrow> vec2 \<Rightarrow> real" where
  "PhillipsSpectrum s k =
     (let kLength = length2 k
      in if kLength < 0.000001 then 0
         else
           let kLength2 = kLength * kLength;
               kLength4 = kLength2 * kLength2;
               kNormalized = (fst k / kLength, snd k / kLength);
               windNormalized = normalize2 (windDirection_wp (waveParams s));
               kDotWind = dot2 kNormalized windNormalized;
               kDotWind2 = kDotWind * kDotWind;
               L = (length2 (windSpeed_wp (waveParams s)) * length2 (windSpeed_wp (waveParams s)))
                     / gravity (waveParams s);
               damping_f = exp (- kLength2 * damping (waveParams s) * damping (waveParams s))
           in A_wp (waveParams s) * exp (- 1 / (kLength2 * L * L)) / kLength4 * kDotWind2 * damping_f)"

text \<open>
  The reference definition, in the words of the specification: zero at the zero
  wavevector, and otherwise
  \<open>A \<cdot> exp(\<minus>1/(|k|\<^sup>2L\<^sup>2)) / |k|\<^sup>4 \<cdot> (k\<^sub>n \<cdot> w\<^sub>n)\<^sup>2 \<cdot> exp(\<minus>|k|\<^sup>2 \<cdot> damping\<^sup>2)\<close> with
  \<open>L = |windSpeed|\<^sup>2 / gravity\<close>, \<open>k\<^sub>n\<close> and \<open>w\<^sub>n\<close> the normalised wavevector and wind
  direction.
\<close>

definition PhillipsSpectrum_reference :: "WaveParameters \<Rightarrow> vec2 \<Rightarrow> real" where
  "PhillipsSpectrum_reference wp k =
     (if length2 k = 0 then 0
      else
        let L = (length2 (windSpeed_wp wp))\<^sup>2 / gravity wp
        in A_wp wp * exp (- 1 / ((length2 k)\<^sup>2 * L\<^sup>2)) / (length2 k) ^ 4
             * (dot2 (normalize2 k) (normalize2 (windDirection_wp wp)))\<^sup>2
             * exp (- (length2 k)\<^sup>2 * (damping wp)\<^sup>2))"

subsection \<open>\<^verbatim>\<open>OceanFFT::GetGaussianRandom\<close> and \<^verbatim>\<open>GenerateInitialSpectrum\<close>\<close>

text \<open>
  \<^verbatim>\<open>Complex(gaussianDist(rng), gaussianDist(rng))\<close>: two draws, numbers \<open>rng\<close> and
  \<open>rng + 1\<close> of the source. The part whose argument is evaluated first gets the
  earlier one.
\<close>

definition GetGaussianRandom :: "OceanFFT \<Rightarrow> Cplx \<times> OceanFFT" where
  "GetGaussianRandom s =
     ((if real_first s (rng s)
       then Cplx (gaussianDist s (rng s)) (gaussianDist s (rng s + 1))
       else Cplx (gaussianDist s (rng s + 1)) (gaussianDist s (rng s))),
      s\<lparr> rng := rng s + 2 \<rparr>)"

text \<open>\<^verbatim>\<open>std::vector::resize\<close>: cut, or fill up with \<^verbatim>\<open>Complex()\<close>.\<close>

definition resize_spectrum :: "Cplx list \<Rightarrow> nat \<Rightarrow> Cplx list" where
  "resize_spectrum xs n = take n xs @ replicate (n - length xs) (Cplx 0 0)"

text \<open>The body of the inner loop, at row \<open>m\<close> and column \<open>n\<close>.\<close>

definition GenerateInitialSpectrum_cell :: "nat \<Rightarrow> nat \<Rightarrow> OceanFFT \<Rightarrow> OceanFFT" where
  "GenerateInitialSpectrum_cell m n s =
     (let k = GetWaveVector s (int n) (int m);
          idx = nat (int m * N (config_fft s) + int n)
      in if length2 k < 0.000001
         then s\<lparr> initialSpectrum := (initialSpectrum s)[idx := Cplx 0 0] \<rparr>
         else
           let phillips = PhillipsSpectrum s k
           in case GetGaussianRandom s of
                (gaussianRand, s') \<Rightarrow>
                  s'\<lparr> initialSpectrum := (initialSpectrum s')
                        [idx := Cplx_mul gaussianRand (Cplx (sqrt (phillips * 0.5)) 0)] \<rparr>)"

definition GenerateInitialSpectrum :: "OceanFFT \<Rightarrow> OceanFFT" where
  "GenerateInitialSpectrum s =
     (let s1 = s\<lparr> initialSpectrum :=
                   resize_spectrum (initialSpectrum s) (nat (N (config_fft s) * N (config_fft s))) \<rparr>
      in fold (\<lambda>m. fold (\<lambda>n. GenerateInitialSpectrum_cell m n) [0..<nat (N (config_fft s1))])
           [0..<nat (N (config_fft s1))] s1)"

subsection \<open>\<^verbatim>\<open>OceanFFT::CreateGeometry\<close>\<close>

definition CreateGeometry_vertex :: "nat \<Rightarrow> nat \<Rightarrow> OceanFFT \<Rightarrow> OceanFFT" where
  "CreateGeometry_vertex z x s =
     (let halfSize = oceanSize (config_fft s) * 0.5;
          step = oceanSize (config_fft s) / real_of_int (N (config_fft s) - 1);
          worldX = - halfSize + real x * step;
          worldZ = - halfSize + real z * step
      in s\<lparr> vertices_fft := vertices_fft s @
             [worldX, 0, worldZ,
              real x / real_of_int (N (config_fft s) - 1),
              real z / real_of_int (N (config_fft s) - 1)] \<rparr>)"

definition CreateGeometry_cell :: "nat \<Rightarrow> nat \<Rightarrow> OceanFFT \<Rightarrow> OceanFFT" where
  "CreateGeometry_cell z x s =
     (let topLeft = int z * N (config_fft s) + int x;
          topRight = topLeft + 1;
          bottomLeft = (int z + 1) * N (config_fft s) + int x;
          bottomRight = bottomLeft + 1
      in s\<lparr> indices_fft := indices_fft s @
             [nat topLeft, nat bottomLeft, nat topRight,
              nat topRight, nat bottomLeft, nat bottomRight] \<rparr>)"

definition CreateGeometry :: "OceanFFT \<Rightarrow> bool \<times> OceanFFT" where
  "CreateGeometry s =
     (let s1 = s\<lparr> vertices_fft := [], indices_fft := [] \<rparr>;
          s2 = fold (\<lambda>z. fold (\<lambda>x. CreateGeometry_vertex z x) [0..<nat (N (config_fft s1))])
                 [0..<nat (N (config_fft s1))] s1;
          s3 = fold (\<lambda>z. fold (\<lambda>x. CreateGeometry_cell z x) [0..<nat (N (config_fft s2) - 1)])
                 [0..<nat (N (config_fft s2) - 1)] s2
      in (True, s3))"

subsection \<open>\<^verbatim>\<open>OceanFFT::Initialize\<close> and \<^verbatim>\<open>Cleanup\<close>\<close>

text \<open>
  \<^verbatim>\<open>CreateTextures\<close> and \<^verbatim>\<open>CreateFramebuffers\<close> allocate graphics objects and return
  \<^verbatim>\<open>true\<close>; \<^verbatim>\<open>InitializeShaders\<close> returns whether
  \<^verbatim>\<open>InitFromFiles("shaders/ocean_fft.vert", "shaders/ocean_fft.frag")\<close> succeeded, which
  is the parameter \<open>shader_ok\<close>.
\<close>

definition CreateTextures :: "OceanFFT \<Rightarrow> bool \<times> OceanFFT" where
  "CreateTextures s = (True, s)"

definition CreateFramebuffers :: "OceanFFT \<Rightarrow> bool \<times> OceanFFT" where
  "CreateFramebuffers s = (True, s)"

definition InitializeShaders :: "bool \<Rightarrow> OceanFFT \<Rightarrow> bool \<times> OceanFFT" where
  "InitializeShaders shader_ok s = (shader_ok, s)"

definition OceanFFT_Cleanup :: "OceanFFT \<Rightarrow> OceanFFT" where
  "OceanFFT_Cleanup s = s\<lparr> isInitialized_fft := False \<rparr>"

definition OceanFFT_Initialize :: "bool \<Rightarrow> OceanFFT_OceanConfig \<Rightarrow> OceanFFT \<Rightarrow> bool \<times> OceanFFT" where
  "OceanFFT_Initialize shader_ok cfg s =
     (let s0 = (if isInitialized_fft s then OceanFFT_Cleanup s else s);
          s1 = s0\<lparr> config_fft := cfg \<rparr>
      in if \<not> IsPowerOfTwo (N (config_fft s1)) then (False, s1)
         else case CreateGeometry s1 of (ok2, s2) \<Rightarrow>
           if \<not> ok2 then (False, s2)
           else case CreateTextures s2 of (ok3, s3) \<Rightarrow>
             if \<not> ok3 then (False, s3)
             else case CreateFramebuffers s3 of (ok4, s4) \<Rightarrow>
               if \<not> ok4 then (False, s4)
               else case InitializeShaders shader_ok s4 of (ok5, s5) \<Rightarrow>
                 if \<not> ok5 then (False, s5)
                 else (True, (GenerateInitialSpectrum s5)\<lparr> isInitialized_fft := True \<rparr>))"

subsection \<open>The sampling queries of \<^verbatim>\<open>OceanFFT\<close>\<close>

text \<open>
  \<^verbatim>\<open>SampleHeight\<close> computes grid coordinates \<^verbatim>\<open>u\<close> and \<^verbatim>\<open>v\<close> that it never
  reads; they are left out. \<^verbatim>\<open>1 << i\<close> is \<open>2\<^sup>i\<close> for the eight values of the counter.
\<close>

definition SampleHeight :: "OceanFFT \<Rightarrow> real \<Rightarrow> real \<Rightarrow> real \<Rightarrow> real" where
  "SampleHeight s x z currentTime0 =
     (if \<not> isInitialized_fft s then 0
      else
        let currentTime = (if currentTime0 < 0 then time_fft s else currentTime0)
        in fold (\<lambda>i waveHeight.
              let freq = 0.01 * real_of_int (2 ^ i);
                  amp = A_wp (waveParams s) / real_of_int (2 ^ i)
              in waveHeight + amp * sin (x * freq + currentTime) * cos (z * freq + currentTime * 0.7))
             [0..<8] 0)"

definition SampleNormal :: "OceanFFT \<Rightarrow> real \<Rightarrow> real \<Rightarrow> real \<Rightarrow> vec3" where
  "SampleNormal s x z currentTime =
     (if \<not> isInitialized_fft s then (0, 1, 0)
      else
        let epsilon = 0.1;
            h0 = SampleHeight s x z currentTime;
            hx = SampleHeight s (x + epsilon) z currentTime;
            hz = SampleHeight s x (z + epsilon) currentTime;
            tangentX = normalize3 (epsilon, hx - h0, 0);
            tangentZ = normalize3 (0, hz - h0, epsilon)
        in normalize3 (cross3 tangentZ tangentX))"

definition SampleDisplacement :: "OceanFFT \<Rightarrow> real \<Rightarrow> real \<Rightarrow> real \<Rightarrow> vec2" where
  "SampleDisplacement s x z currentTime =
     (if \<not> isInitialized_fft s \<or> \<not> enableChoppiness (config_fft s) then (0, 0)
      else
        let dispX = lambda (waveParams s) * 0.1 * cos (x * 0.01 + currentTime);
            dispZ = lambda (waveParams s) * 0.1 * sin (z * 0.01 + currentTime * 0.8)
        in (dispX, dispZ))"

section \<open>Closed forms of the loop bodies and concrete inputs\<close>

text \<open>
  The values that one pass of the inner loops of \<^verbatim>\<open>GenerateMesh\<close> and
  \<^verbatim>\<open>GenerateIndices\<close> appends, as functions of the configuration and the two loop
  counters.
\<close>

definition grid_vertex :: "OceanConfig \<Rightarrow> nat \<Rightarrow> nat \<Rightarrow> vec3" where
  "grid_vertex cfg z x =
     (- (size_w cfg * 0.5) + real x * (size_w cfg / real_of_int (resolution cfg)), 0,
      - (size_w cfg * 0.5) + real z * (size_w cfg / real_of_int (resolution cfg)))"

definition grid_uv :: "OceanConfig \<Rightarrow> nat \<Rightarrow> nat \<Rightarrow> vec2" where
  "grid_uv cfg z x =
     (real x / real_of_int (resolution cfg), real z / real_of_int (resolution cfg))"

definition grid_cell :: "OceanConfig \<Rightarrow> nat \<Rightarrow> nat \<Rightarrow> nat list" where
  "grid_cell cfg z x =
     [nat (int z * (resolution cfg + 1) + int x),
      nat ((int z + 1) * (resolution cfg + 1) + int x),
      nat (int z * (resolution cfg + 1) + int x + 1),
      nat (int z * (resolution cfg + 1) + int x + 1),
      nat ((int z + 1) * (resolution cfg + 1) + int x),
      nat ((int z + 1) * (resolution cfg + 1) + int x + 1)]"

text \<open>A mesh of resolution 4 and size 10 on a freshly constructed \<^verbatim>\<open>Ocean\<close>.\<close>

definition mesh_example :: Ocean where
  "mesh_example = Ocean_new\<lparr> config := OceanConfig_default\<lparr> resolution := 4, size_w := 10 \<rparr> \<rparr>"

text \<open>The configuration of the end-to-end scenario: one wave, wind along \<open>x\<close>.\<close>

definition single_wave_example :: Ocean where
  "single_wave_example =
     Ocean_new\<lparr> config := OceanConfig_default\<lparr> windDirection := (1, 0), waveAmplitude := 1,
                   waveFrequency := 0.02, numWaves := 1 \<rparr> \<rparr>"

text \<open>The wave of the one-wave configuration.\<close>

definition wave_example :: Wave where
  "wave_example = \<lparr> direction = (1, 0), amplitude = 1, frequency = 0.02, phase = 0, steepness = 40 \<rparr>"

text \<open>The default configuration with a negative base frequency.\<close>

definition cfg_neg :: OceanConfig where
  "cfg_neg = OceanConfig_default\<lparr> waveFrequency := - 0.02 \<rparr>"

text \<open>
  Bookkeeping for the spectrum. Cell \<open>i\<close> of the row-major \<open>N \<times> N\<close> array is the cell
  of row \<open>m = i div N\<close> and column \<open>n = i mod N\<close>. \<open>zero_cell s i\<close> says that the
  wavevector of cell \<open>i\<close> is shorter than \<open>10\<^sup>\<minus>\<^sup>6\<close>, \<open>draws_before s c\<close> counts the
  cells before cell \<open>c\<close> that are not, and \<open>spectrum_cell s i\<close> is the value cell
  \<open>i\<close> gets when each of those cells has taken two numbers from the random source.
\<close>

definition zero_cell :: "OceanFFT \<Rightarrow> nat \<Rightarrow> bool" where
  "zero_cell s i =
     (length2 (GetWaveVector s (int (i mod nat (N (config_fft s)))) (int (i div nat (N (config_fft s)))))
        < 0.000001)"

definition draws_before :: "OceanFFT \<Rightarrow> nat \<Rightarrow> nat" where
  "draws_before s c = length (filter (\<lambda>i. \<not> zero_cell s i) [0..<c])"

text \<open>
  \<open>draw_index s i re\<close> is the number of the draw that goes into the real part
  (\<open>re = True\<close>) or the imaginary part (\<open>re = False\<close>) of cell \<open>i\<close>: the two draws of
  the cell are numbers \<open>j\<close> and \<open>j + 1\<close> with \<open>j = rng + 2 \<cdot> draws_before i\<close>, and the
  order of evaluation decides which part gets which. None of these depends on the
  numbers drawn.
\<close>

definition draw_index :: "OceanFFT \<Rightarrow> nat \<Rightarrow> bool \<Rightarrow> nat" where
  "draw_index s i re =
     (let j = rng s + 2 * draws_before s i
      in if re = real_first s j then j else j + 1)"

definition spectrum_cell :: "OceanFFT \<Rightarrow> nat \<Rightarrow> Cplx" where
  "spectrum_cell s i =
     (let k = GetWaveVector s (int (i mod nat (N (config_fft s)))) (int (i div nat (N (config_fft s))))
      in if length2 k < 0.000001 then Cplx 0 0
         else Cplx (gaussianDist s (draw_index s i True) * sqrt (PhillipsSpectrum s k * 0.5))
                   (gaussianDist s (draw_index s i False) * sqrt (PhillipsSpectrum s k * 0.5)))"

text \<open>
  Random variables, for the statement that the samples are independent and standard
  normal. An outcome is a value of a type \<open>'w\<close>, a random variable a function from
  outcomes to reals, and \<open>P\<close> gives the probability of a set of outcomes; only its
  values on the events \<open>{w. X w \<le> x}\<close> and their finite intersections are used.
  \<open>has_cdf P X F\<close> says that \<open>X\<close> has the distribution function \<open>F\<close>, and
  \<open>indep_family P X I\<close> that the variables \<open>X i\<close>, \<open>i \<in> I\<close>, are independent: the joint
  distribution function of every finite subfamily is the product of its members'.
  \<open>std_normal_cdf\<close> is the distribution function of the standard normal distribution,
  \<open>(1 + erf (x / sqrt 2)) / 2\<close>, with the error function as its power series.
\<close>

definition has_cdf :: "('w set \<Rightarrow> real) \<Rightarrow> ('w \<Rightarrow> real) \<Rightarrow> (real \<Rightarrow> real) \<Rightarrow> bool" where
  "has_cdf P X F = (\<forall>x. P {w. X w \<le> x} = F x)"

definition indep_family :: "('w set \<Rightarrow> real) \<Rightarrow> ('i \<Rightarrow> 'w \<Rightarrow> real) \<Rightarrow> 'i set \<Rightarrow> bool" where
  "indep_family P X I =
     (\<forall>J x. finite J \<and> J \<subseteq> I \<longrightarrow>
        P {w. \<forall>j\<in>J. X j w \<le> x j} = (\<Prod>j\<in>J. P {w. X j w \<le> x j}))"

definition erf_series :: "real \<Rightarrow> real" where
  "erf_series z = 2 / sqrt pi * (\<Sum>n. (- 1) ^ n * z ^ (2 * n + 1) / (fact n * real (2 * n + 1)))"

definition std_normal_cdf :: "real \<Rightarrow> real" where
  "std_normal_cdf x = (1 + erf_series (x / sqrt 2)) / 2"

text \<open>Concrete inputs: a random source, and surfaces built from it.\<close>

definition gauss_example :: "nat \<Rightarrow> real" where
  "gauss_example i = real i / 10 - 1"

text \<open>An order of evaluation: the second argument first, at every call.\<close>

definition order_example :: "nat \<Rightarrow> bool" where
  "order_example r = False"

definition spectrum_example :: OceanFFT where
  "spectrum_example =
     (OceanFFT_new gauss_example order_example)\<lparr> config_fft := OceanFFT_OceanConfig_default\<lparr> N := 2 \<rparr> \<rparr>"

definition small_surface :: OceanFFT where
  "small_surface =
     snd (OceanFFT_Initialize True (OceanFFT_OceanConfig_default\<lparr> N := 2, enableChoppiness := False \<rparr>)
            (OceanFFT_new gauss_example order_example))"

text \<open>
  A sample space for the random source: an outcome is the whole sequence of numbers
  drawn, \<open>X_example n\<close> is the \<open>n\<close>-th of them, and \<open>P_example\<close> gives every box
  \<open>{w. \<forall>j\<in>J. w j \<le> x j}\<close> with \<open>J\<close> finite the product of the \<open>std_normal_cdf (x j)\<close>:
  the bounded coordinates of a box are those of \<open>J\<close>, and their suprema the \<open>x j\<close>.
\<close>

definition X_example :: "nat \<Rightarrow> (nat \<Rightarrow> real) \<Rightarrow> real" where
  "X_example n w = w n"

definition P_example :: "(nat \<Rightarrow> real) set \<Rightarrow> real" where
  "P_example A =
     (\<Prod>j\<in>{j. bdd_above ((\<lambda>w. w j) ` A)}. std_normal_cdf (Sup ((\<lambda>w. w j) ` A)))"

definition phillips_example :: OceanFFT where
  "phillips_example =
     (OceanFFT_new gauss_example order_example)\<lparr> waveParams :=
        WaveParameters_default\<lparr> windSpeed_wp := (3000, 0), windDirection_wp := (1, 0) \<rparr> \<rparr>"

section \<open>Properties of the Gerstner ocean\<close>

subsection \<open>The wave set\<close>

lemma fold_snoc_map: "fold (\<lambda>i acc. acc @ [f i]) xs acc = acc @ map f xs"
  by (induction xs arbitrary: acc) simp_all

lemma GenerateWaveSet_map:
  "GenerateWaveSet cfg = map (GenerateWaveSet_wave cfg) [0..<nat (numWaves cfg)]"
  by (simp add: GenerateWaveSet_def fold_snoc_map)

lemma GenerateWaveSet_length: "length (GenerateWaveSet cfg) = nat (numWaves cfg)"
  by (simp add: GenerateWaveSet_map)

lemma GenerateWaveSet_nth:
  "i < nat (numWaves cfg) \<Longrightarrow> GenerateWaveSet cfg ! i = GenerateWaveSet_wave cfg i"
  by (simp add: GenerateWaveSet_map)

lemma GenerateWaveSet_in_set:
  "w \<in> set (GenerateWaveSet cfg) \<Longrightarrow> \<exists>i < nat (numWaves cfg). w = GenerateWaveSet_wave cfg i"
  by (auto simp add: GenerateWaveSet_map)

text \<open>
  Claim C8. For a Gerstner ocean configured with wind direction \<open>(1, 0)\<close>, amplitude 1,
  base frequency 0.02 and a single wave, the height query at the origin and time zero
  equals the amplitude times the sine of the phase of the one generated wave.
\<close>

theorem SampleWaveHeight_single_wave_origin:
  assumes "windDirection (config s) = (1, 0)"
    and "waveAmplitude (config s) = 1"
    and "waveFrequency (config s) = 0.02"
    and "numWaves (config s) = 1"
  shows "length (GenerateWaveSet (config s)) = 1 \<and>
         SampleWaveHeight s 0 0 0 =
           waveAmplitude (config s) * sin (phase (GenerateWaveSet (config s) ! 0))"
  using assms
  by (simp add: SampleWaveHeight_def GenerateWaveSet_map GenerateWaveSet_wave_def
      normalize2_def dot2_def mix2_def Let_def)

text \<open>The scenario itself, on a freshly constructed ocean.\<close>

theorem SampleWaveHeight_single_wave_origin_witness:
  "length (GenerateWaveSet (config single_wave_example)) = 1 \<and>
   SampleWaveHeight single_wave_example 0 0 0 =
     waveAmplitude (config single_wave_example) *
       sin (phase (GenerateWaveSet (config single_wave_example) ! 0))"
proof -
  have "windDirection (config single_wave_example) = (1, 0)"
    and "waveAmplitude (config single_wave_example) = 1"
    and "waveFrequency (config single_wave_example) = 0.02"
    and "numWaves (config single_wave_example) = 1"
    by (simp_all add: single_wave_example_def Ocean_new_def)
  then show ?thesis by (rule SampleWaveHeight_single_wave_origin)
qed

subsection \<open>Steepness\<close>

text \<open>
  Claim C6, as stated: for every configuration with \<open>K \<ge> 1\<close> waves, every generated wave
  satisfies \<open>steepness \<cdot> amplitude \<cdot> K \<le> 1 / frequency + \<epsilon>\<close>. With a negative base
  frequency the first wave of the default configuration (\<open>K = 6\<close>) has
  \<open>steepness \<cdot> amplitude \<cdot> K = \<minus>40\<close> and \<open>1 / frequency = \<minus>50\<close>: the bound fails even
  with a tolerance of 1.
\<close>

theorem steepness_bound_negative_frequency:
  "\<not> (steepness (GenerateWaveSet cfg_neg ! 0) * amplitude (GenerateWaveSet cfg_neg ! 0)
           * real_of_int (numWaves cfg_neg)
         \<le> 1 / frequency (GenerateWaveSet cfg_neg ! 0) + 1)"
  by (simp add: GenerateWaveSet_nth cfg_neg_def OceanConfig_default_def GenerateWaveSet_wave_def Let_def)

text \<open>
  Claim C6, amended: for every configuration with \<open>K \<ge> 1\<close> waves, a positive base
  frequency and a non-zero base amplitude, every generated wave satisfies
  \<open>steepness \<cdot> amplitude \<cdot> K \<le> 1 / frequency + \<epsilon>\<close>, for every tolerance \<open>\<epsilon> \<ge> 0\<close>.
\<close>

theorem steepness_bound:
  assumes "1 \<le> numWaves cfg" and "0 < waveFrequency cfg" and "waveAmplitude cfg \<noteq> 0"
    and "0 \<le> eps" and "w \<in> set (GenerateWaveSet cfg)"
  shows "steepness w * amplitude w * real_of_int (numWaves cfg) \<le> 1 / frequency w + eps"
proof -
  from assms(5) obtain i where w: "w = GenerateWaveSet_wave cfg i"
    using GenerateWaveSet_in_set by blast
  have f: "0 < frequency w" using assms(2) by (simp add: w GenerateWaveSet_wave_def Let_def)
  have a: "amplitude w \<noteq> 0" using assms(3) by (simp add: w GenerateWaveSet_wave_def Let_def add_nonneg_eq_0_iff)
  have k: "real_of_int (numWaves cfg) \<noteq> 0" using assms(1) by simp
  have s: "steepness w = 0.8 / (frequency w * amplitude w * real_of_int (numWaves cfg))"
    by (simp add: w GenerateWaveSet_wave_def Let_def)
  have "steepness w * amplitude w * real_of_int (numWaves cfg) = 0.8 / frequency w"
    using a k f by (simp add: s field_simps)
  also have "\<dots> \<le> 1 / frequency w" using f by (simp add: field_simps)
  finally show ?thesis using assms(4) by simp
qed

text \<open>The first wave of the default configuration.\<close>

theorem steepness_bound_witness:
  "steepness (GenerateWaveSet OceanConfig_default ! 0) * amplitude (GenerateWaveSet OceanConfig_default ! 0)
       * real_of_int (numWaves OceanConfig_default)
     \<le> 1 / frequency (GenerateWaveSet OceanConfig_default ! 0) + 0"
proof -
  have k: "1 \<le> numWaves OceanConfig_default" and f: "0 < waveFrequency OceanConfig_default"
    and a: "waveAmplitude OceanConfig_default \<noteq> 0"
    by (simp_all add: OceanConfig_default_def)
  have e: "(0::real) \<le> 0" by simp
  have "0 < length (GenerateWaveSet OceanConfig_default)"
    by (simp add: GenerateWaveSet_length OceanConfig_default_def)
  then have w: "GenerateWaveSet OceanConfig_default ! 0 \<in> set (GenerateWaveSet OceanConfig_default)"
    by (rule nth_mem)
  show ?thesis using k f a e w by (rule steepness_bound)
qed

text \<open>
  Claim C9, as stated: every generated wave has a steepness in \<open>[0, 1]\<close>. The first wave
  of the default configuration has steepness \<open>0.8 / (0.02 \<cdot> 2 \<cdot> 6) = 10/3\<close>.
\<close>

theorem steepness_default_exceeds_one:
  "steepness (GenerateWaveSet OceanConfig_default ! 0) = 10 / 3 \<and>
   \<not> (0 \<le> steepness (GenerateWaveSet OceanConfig_default ! 0) \<and>
      steepness (GenerateWaveSet OceanConfig_default ! 0) \<le> 1)"
  by (simp add: GenerateWaveSet_nth OceanConfig_default_def GenerateWaveSet_wave_def Let_def)

text \<open>
  Claim C9, amended: for every configuration with \<open>K \<ge> 1\<close> waves, a positive base
  frequency and a positive base amplitude, every generated wave has the steepness
  \<open>0.8 / (frequency \<cdot> amplitude \<cdot> K)\<close>, which is positive, and which lies in \<open>[0, 1]\<close>
  exactly when \<open>frequency \<cdot> amplitude \<cdot> K \<ge> 0.8\<close>.
\<close>

theorem steepness_value:
  assumes "1 \<le> numWaves cfg" and "0 < waveFrequency cfg" and "0 < waveAmplitude cfg"
    and "w \<in> set (GenerateWaveSet cfg)"
  shows "steepness w = 0.8 / (frequency w * amplitude w * real_of_int (numWaves cfg)) \<and>
         0 < steepness w \<and>
         ((0 \<le> steepness w \<and> steepness w \<le> 1) =
            (0.8 \<le> frequency w * amplitude w * real_of_int (numWaves cfg)))"
proof -
  from assms(4) obtain i where w: "w = GenerateWaveSet_wave cfg i"
    using GenerateWaveSet_in_set by blast
  have f: "0 < frequency w" using assms(2) by (simp add: w GenerateWaveSet_wave_def Let_def)
  have a: "0 < amplitude w" using assms(3) by (simp add: w GenerateWaveSet_wave_def Let_def)
  have k: "0 < real_of_int (numWaves cfg)" using assms(1) by simp
  have p: "0 < frequency w * amplitude w * real_of_int (numWaves cfg)" using f a k by simp
  have s: "steepness w = 0.8 / (frequency w * amplitude w * real_of_int (numWaves cfg))"
    by (simp add: w GenerateWaveSet_wave_def Let_def)
  have pos: "0 < steepness w" unfolding s using p by simp
  have "(steepness w \<le> 1) = (0.8 \<le> frequency w * amplitude w * real_of_int (numWaves cfg))"
    unfolding s using p by (simp add: field_simps)
  with s pos show ?thesis by simp
qed

text \<open>The second wave of the default configuration.\<close>

theorem steepness_value_witness:
  "steepness (GenerateWaveSet OceanConfig_default ! 1) =
     0.8 / (frequency (GenerateWaveSet OceanConfig_default ! 1) *
            amplitude (GenerateWaveSet OceanConfig_default ! 1) *
            real_of_int (numWaves OceanConfig_default)) \<and>
   0 < steepness (GenerateWaveSet OceanConfig_default ! 1) \<and>
   ((0 \<le> steepness (GenerateWaveSet OceanConfig_default ! 1) \<and>
     steepness (GenerateWaveSet OceanConfig_default ! 1) \<le> 1) =
      (0.8 \<le> frequency (GenerateWaveSet OceanConfig_default ! 1) *
              amplitude (GenerateWaveSet OceanConfig_default ! 1) *
              real_of_int (numWaves OceanConfig_default)))"
proof -
  have k: "1 \<le> numWaves OceanConfig_default" and f: "0 < waveFrequency OceanConfig_default"
    and a: "0 < waveAmplitude OceanConfig_default"
    by (simp_all add: OceanConfig_default_def)
  have "1 < length (GenerateWaveSet OceanConfig_default)"
    by (simp add: GenerateWaveSet_length OceanConfig_default_def)
  then have w: "GenerateWaveSet OceanConfig_default ! 1 \<in> set (GenerateWaveSet OceanConfig_default)"
    by (rule nth_mem)
  show ?thesis using k f a w by (rule steepness_value)
qed

subsection \<open>The grid mesh\<close>

lemma concat_blocks_length:
  "(\<And>i. i < m \<Longrightarrow> length (g i) = k) \<Longrightarrow> length (concat (map g [0..<m])) = m * k"
  by (induction m) simp_all

lemma concat_blocks_nth:
  "(\<And>i. i < m \<Longrightarrow> length (g i) = k) \<Longrightarrow> i < m \<Longrightarrow> j < k \<Longrightarrow>
     concat (map g [0..<m]) ! (i * k + j) = g i ! j"
proof (induction m)
  case 0
  then show ?case by simp
next
  case (Suc m)
  have len: "length (concat (map g [0..<m])) = m * k"
    using Suc.prems(1) by (simp add: concat_blocks_length)
  show ?case
  proof (cases "i < m")
    case True
    have "i * k + j < m * k"
    proof -
      have "i * k + j < i * k + k" using Suc.prems(3) by simp
      also have "\<dots> = Suc i * k" by simp
      also have "\<dots> \<le> m * k" using True by (intro mult_le_mono1) simp
      finally show ?thesis .
    qed
    then show ?thesis
      using Suc.IH [OF _ True Suc.prems(3)] Suc.prems(1) len by (simp add: nth_append)
  next
    case False
    then have "i = m" using Suc.prems(2) by simp
    then show ?thesis using len by (simp add: nth_append)
  qed
qed

lemma GenerateMesh_row:
  "fold (\<lambda>x. GenerateMesh_vertex z x) [0..<n] s =
     s\<lparr> vertices := vertices s @ map (grid_vertex (config s) z) [0..<n],
        normals := normals s @ replicate n (0, 1, 0),
        texCoords := texCoords s @ map (grid_uv (config s) z) [0..<n] \<rparr>"
  by (induction n)
    (simp_all add: GenerateMesh_vertex_def grid_vertex_def grid_uv_def Let_def
      replicate_append_same)

lemma GenerateMesh_rows:
  "fold (\<lambda>z. fold (\<lambda>x. GenerateMesh_vertex z x) [0..<n]) [0..<m] s =
     s\<lparr> vertices := vertices s @ concat (map (\<lambda>z. map (grid_vertex (config s) z) [0..<n]) [0..<m]),
        normals := normals s @ concat (map (\<lambda>z. replicate n (0, 1, 0)) [0..<m]),
        texCoords := texCoords s @ concat (map (\<lambda>z. map (grid_uv (config s) z) [0..<n]) [0..<m]) \<rparr>"
  by (induction m) (simp_all add: GenerateMesh_row)

lemma GenerateIndices_row:
  "fold (\<lambda>x. GenerateIndices_cell z x) [0..<n] s =
     s\<lparr> indices := indices s @ concat (map (grid_cell (config s) z) [0..<n]) \<rparr>"
  by (induction n) (simp_all add: GenerateIndices_cell_def grid_cell_def Let_def)

lemma GenerateIndices_rows:
  "fold (\<lambda>z. fold (\<lambda>x. GenerateIndices_cell z x) [0..<n]) [0..<m] s =
     s\<lparr> indices := indices s @ concat (map (\<lambda>z. concat (map (grid_cell (config s) z) [0..<n])) [0..<m]) \<rparr>"
  by (induction m) (simp_all add: GenerateIndices_row)

lemma GenerateMesh_closed:
  "GenerateMesh s =
     s\<lparr> vertices := concat (map (\<lambda>z. map (grid_vertex (config s) z) [0..<nat (resolution (config s) + 1)])
                        [0..<nat (resolution (config s) + 1)]),
        normals := concat (map (\<lambda>z. replicate (nat (resolution (config s) + 1)) (0, 1, 0))
                        [0..<nat (resolution (config s) + 1)]),
        texCoords := concat (map (\<lambda>z. map (grid_uv (config s) z) [0..<nat (resolution (config s) + 1)])
                        [0..<nat (resolution (config s) + 1)]),
        indices := concat (map (\<lambda>z. concat (map (grid_cell (config s) z) [0..<nat (resolution (config s))]))
                        [0..<nat (resolution (config s))]) \<rparr>"
  by (simp add: GenerateMesh_def GenerateIndices_def GenerateMesh_rows GenerateIndices_rows Let_def)

lemma grid_cell_length: "length (grid_cell cfg z x) = 6"
  by (simp add: grid_cell_def)

lemma grid_row_length: "length (concat (map (grid_cell cfg z) [0..<n])) = n * 6"
  by (rule concat_blocks_length) (simp add: grid_cell_length)

lemma grid_indices_length:
  "length (concat (map (\<lambda>z. concat (map (grid_cell cfg z) [0..<n])) [0..<m])) = m * (n * 6)"
  by (rule concat_blocks_length) (simp add: grid_row_length)

lemma grid_indices_nth:
  assumes "z < m" and "x < n" and "j < 6"
  shows "concat (map (\<lambda>z. concat (map (grid_cell cfg z) [0..<n])) [0..<m]) ! (6 * (z * n + x) + j)
           = grid_cell cfg z x ! j"
proof -
  have inner: "x * 6 + j < n * 6"
  proof -
    have "x * 6 + j < Suc x * 6" using assms(3) by simp
    also have "\<dots> \<le> n * 6" using assms(2) by (intro mult_le_mono1) simp
    finally show ?thesis .
  qed
  have idx: "6 * (z * n + x) + j = z * (n * 6) + (x * 6 + j)" by (simp add: algebra_simps)
  have "concat (map (\<lambda>z. concat (map (grid_cell cfg z) [0..<n])) [0..<m]) ! (z * (n * 6) + (x * 6 + j))
      = concat (map (grid_cell cfg z) [0..<n]) ! (x * 6 + j)"
    by (rule concat_blocks_nth) (simp_all add: grid_row_length assms(1) inner)
  then have "concat (map (\<lambda>z. concat (map (grid_cell cfg z) [0..<n])) [0..<m]) ! (6 * (z * n + x) + j)
      = concat (map (grid_cell cfg z) [0..<n]) ! (x * 6 + j)"
    by (simp only: idx)
  also have "\<dots> = grid_cell cfg z x ! j"
    by (rule concat_blocks_nth) (simp_all add: grid_cell_length assms(2,3))
  finally show ?thesis .
qed

lemma grid_map_nth:
  assumes "z < m" and "x < n"
  shows "concat (map (\<lambda>z. map (f z) [0..<n]) [0..<m]) ! (z * n + x) = f z x"
  using concat_blocks_nth [where g = "\<lambda>z. map (f z) [0..<n]" and k = n and m = m and i = z and j = x]
    assms by simp

lemma grid_map_length: "length (concat (map (\<lambda>z. map (f z) [0..<n]) [0..<m])) = m * n"
  by (rule concat_blocks_length) simp

lemma take_drop_eqI:
  assumes "length ys = n" and "k + n \<le> length xs" and "\<And>j. j < n \<Longrightarrow> xs ! (k + j) = ys ! j"
  shows "take n (drop k xs) = ys"
  using assms by (intro nth_equalityI) simp_all

text \<open>
  Claim C7. Grid mesh generation is a function of the resolution \<open>R\<close> and the size
  alone: whatever the rest of the state, the same \<open>R\<close> and size give the same vertex,
  normal, texture coordinate and index sequences. For a positive \<open>R\<close> (with
  \<open>6R\<^sup>2\<close> below \<open>2\<^sup>3\<^sup>1\<close>, so that the int arithmetic of the source does not
  overflow) the output has \<open>(R + 1)\<^sup>2\<close> vertices, row-major on the square centred at
  the origin, vertex \<open>z (R + 1) + x\<close> at \<open>(\<minus>size/2 + x \<cdot> size/R, 0, \<minus>size/2 + z \<cdot> size/R)\<close>
  with texture coordinates \<open>(x/R, z/R)\<close>, and \<open>2R\<^sup>2\<close> triangles, the two of cell
  \<open>(z, x)\<close> being (topLeft, bottomLeft, topRight) and (topRight, bottomLeft,
  bottomRight).
\<close>

theorem GenerateMesh_grid:
  "(resolution (config s') = resolution (config s) \<and> size_w (config s') = size_w (config s) \<longrightarrow>
      vertices (GenerateMesh s') = vertices (GenerateMesh s) \<and>
      normals (GenerateMesh s') = normals (GenerateMesh s) \<and>
      texCoords (GenerateMesh s') = texCoords (GenerateMesh s) \<and>
      indices (GenerateMesh s') = indices (GenerateMesh s)) \<and>
   (resolution (config s) = int R \<and> 0 < R \<and> 6 * R * R < 2 ^ 31 \<longrightarrow>
      length (vertices (GenerateMesh s)) = (R + 1)\<^sup>2 \<and>
      length (normals (GenerateMesh s)) = (R + 1)\<^sup>2 \<and>
      length (texCoords (GenerateMesh s)) = (R + 1)\<^sup>2 \<and>
      length (indices (GenerateMesh s)) = 3 * (2 * R\<^sup>2) \<and>
      (\<forall>z x. z \<le> R \<and> x \<le> R \<longrightarrow>
         vertices (GenerateMesh s) ! (z * (R + 1) + x) =
           (- (size_w (config s) / 2) + real x * (size_w (config s) / real R), 0,
            - (size_w (config s) / 2) + real z * (size_w (config s) / real R)) \<and>
         texCoords (GenerateMesh s) ! (z * (R + 1) + x) = (real x / real R, real z / real R)) \<and>
      (\<forall>z x. z < R \<and> x < R \<longrightarrow>
         take 6 (drop (6 * (z * R + x)) (indices (GenerateMesh s))) =
           [z * (R + 1) + x, (z + 1) * (R + 1) + x, z * (R + 1) + x + 1,
            z * (R + 1) + x + 1, (z + 1) * (R + 1) + x, (z + 1) * (R + 1) + x + 1]))"
proof -
  have det: "vertices (GenerateMesh s') = vertices (GenerateMesh s) \<and>
            normals (GenerateMesh s') = normals (GenerateMesh s) \<and>
            texCoords (GenerateMesh s') = texCoords (GenerateMesh s) \<and>
            indices (GenerateMesh s') = indices (GenerateMesh s)"
    if "resolution (config s') = resolution (config s)" "size_w (config s') = size_w (config s)"
  proof -
    have "grid_vertex (config s') = grid_vertex (config s)"
      and "grid_uv (config s') = grid_uv (config s)"
      and "grid_cell (config s') = grid_cell (config s)"
      by (intro ext, simp add: grid_vertex_def grid_uv_def grid_cell_def that)+
    then show ?thesis by (simp add: GenerateMesh_closed that)
  qed
  have grid: "length (vertices (GenerateMesh s)) = (R + 1)\<^sup>2 \<and>
      length (normals (GenerateMesh s)) = (R + 1)\<^sup>2 \<and>
      length (texCoords (GenerateMesh s)) = (R + 1)\<^sup>2 \<and>
      length (indices (GenerateMesh s)) = 3 * (2 * R\<^sup>2) \<and>
      (\<forall>z x. z \<le> R \<and> x \<le> R \<longrightarrow>
         vertices (GenerateMesh s) ! (z * (R + 1) + x) =
           (- (size_w (config s) / 2) + real x * (size_w (config s) / real R), 0,
            - (size_w (config s) / 2) + real z * (size_w (config s) / real R)) \<and>
         texCoords (GenerateMesh s) ! (z * (R + 1) + x) = (real x / real R, real z / real R)) \<and>
      (\<forall>z x. z < R \<and> x < R \<longrightarrow>
         take 6 (drop (6 * (z * R + x)) (indices (GenerateMesh s))) =
           [z * (R + 1) + x, (z + 1) * (R + 1) + x, z * (R + 1) + x + 1,
            z * (R + 1) + x + 1, (z + 1) * (R + 1) + x, (z + 1) * (R + 1) + x + 1])"
    if res: "resolution (config s) = int R" and pos: "0 < R" and ovf: "6 * R * R < 2 ^ 31"
  proof -
    have n1: "nat (resolution (config s) + 1) = Suc R" and n0: "nat (resolution (config s)) = R"
      using res by simp_all
    have V: "vertices (GenerateMesh s) =
               concat (map (\<lambda>z. map (grid_vertex (config s) z) [0..<Suc R]) [0..<Suc R])"
      and W: "normals (GenerateMesh s) = concat (map (\<lambda>z. replicate (Suc R) (0, 1, 0)) [0..<Suc R])"
      and T: "texCoords (GenerateMesh s) =
               concat (map (\<lambda>z. map (grid_uv (config s) z) [0..<Suc R]) [0..<Suc R])"
      and I: "indices (GenerateMesh s) =
               concat (map (\<lambda>z. concat (map (grid_cell (config s) z) [0..<R])) [0..<R])"
      by (simp_all only: GenerateMesh_closed n1 n0) (simp_all del: upt_Suc)
    have lv: "length (vertices (GenerateMesh s)) = (R + 1)\<^sup>2"
      by (simp only: V grid_map_length) (simp add: power2_eq_square)
    have ln: "length (normals (GenerateMesh s)) = (R + 1)\<^sup>2"
      by (simp only: W concat_blocks_length [where k = "Suc R"] length_replicate)
        (simp add: power2_eq_square)
    have lt: "length (texCoords (GenerateMesh s)) = (R + 1)\<^sup>2"
      by (simp only: T grid_map_length) (simp add: power2_eq_square)
    have li: "length (indices (GenerateMesh s)) = 3 * (2 * R\<^sup>2)"
      by (simp only: I grid_indices_length) (simp add: power2_eq_square)
    have vt: "vertices (GenerateMesh s) ! (z * (R + 1) + x) =
                (- (size_w (config s) / 2) + real x * (size_w (config s) / real R), 0,
                 - (size_w (config s) / 2) + real z * (size_w (config s) / real R)) \<and>
              texCoords (GenerateMesh s) ! (z * (R + 1) + x) = (real x / real R, real z / real R)"
      if "z \<le> R" "x \<le> R" for z x
    proof -
      have lt: "z < Suc R" "x < Suc R" using that by simp_all
      have "vertices (GenerateMesh s) ! (z * Suc R + x) = grid_vertex (config s) z x"
        by (simp only: V grid_map_nth [OF lt])
      moreover have "texCoords (GenerateMesh s) ! (z * Suc R + x) = grid_uv (config s) z x"
        by (simp only: T grid_map_nth [OF lt])
      ultimately show ?thesis
        by (simp add: grid_vertex_def grid_uv_def res)
    qed
    have ix: "take 6 (drop (6 * (z * R + x)) (indices (GenerateMesh s))) =
                [z * (R + 1) + x, (z + 1) * (R + 1) + x, z * (R + 1) + x + 1,
                 z * (R + 1) + x + 1, (z + 1) * (R + 1) + x, (z + 1) * (R + 1) + x + 1]"
      (is "take 6 (drop ?k ?xs) = ?ys") if zx: "z < R" "x < R" for z x
    proof -
      have cell: "grid_cell (config s) z x = ?ys"
        by (simp add: grid_cell_def res nat_add_distrib nat_mult_distrib algebra_simps)
      have "z * R + x < R * R"
      proof -
        have "z * R + x < Suc z * R" using zx(2) by simp
        also have "\<dots> \<le> R * R" using zx(1) by (intro mult_le_mono1) simp
        finally show ?thesis .
      qed
      then have bound: "?k + 6 \<le> length ?xs"
        by (simp add: li power2_eq_square)
      have nth: "?xs ! (?k + j) = ?ys ! j" if "j < 6" for j
      proof -
        have "?xs ! (?k + j) = grid_cell (config s) z x ! j"
          using that by (simp only: I grid_indices_nth [OF zx(1) zx(2)])
        then show ?thesis by (simp only: cell)
      qed
      have len: "length ?ys = 6" by simp
      show ?thesis
        using len bound nth by (rule take_drop_eqI)
    qed
    from lv ln lt li vt ix show ?thesis by blast
  qed
  from det grid show ?thesis by blast
qed

text \<open>Resolution 4 and size 10: 25 vertices and 32 triangles.\<close>

theorem GenerateMesh_grid_witness:
  "length (vertices (GenerateMesh mesh_example)) = 25 \<and>
   length (indices (GenerateMesh mesh_example)) = 3 * 32 \<and>
   vertices (GenerateMesh mesh_example) ! 7 = (0, 0, - 2.5) \<and>
   texCoords (GenerateMesh mesh_example) ! 7 = (0.5, 0.25) \<and>
   take 6 (drop 36 (indices (GenerateMesh mesh_example))) = [7, 12, 8, 8, 12, 13] \<and>
   vertices (GenerateMesh (mesh_example\<lparr> time := 3, vertices := [(1, 2, 3)] \<rparr>)) =
     vertices (GenerateMesh mesh_example)"
proof -
  have res: "resolution (config mesh_example) = int 4"
    by (simp add: mesh_example_def)
  have pos: "0 < (4::nat)" and ovf: "6 * 4 * 4 < (2::nat) ^ 31" by simp_all
  have same: "resolution (config (mesh_example\<lparr> time := 3, vertices := [(1, 2, 3)] \<rparr>)) =
      resolution (config mesh_example)"
    "size_w (config (mesh_example\<lparr> time := 3, vertices := [(1, 2, 3)] \<rparr>)) = size_w (config mesh_example)"
    by simp_all
  note t = GenerateMesh_grid [of "mesh_example\<lparr> time := 3, vertices := [(1, 2, 3)] \<rparr>" mesh_example 4]
  note d = t [THEN conjunct1, THEN mp, OF conjI [OF same]]
  note g = t [THEN conjunct2, THEN mp, OF conjI [OF res conjI [OF pos ovf]]]
  have sz: "size_w (config mesh_example) = 10" by (simp add: mesh_example_def)
  have c1: "length (vertices (GenerateMesh mesh_example)) = 25"
    using g [THEN conjunct1] by (simp add: power2_eq_square)
  have c2: "length (indices (GenerateMesh mesh_example)) = 3 * 32"
    using g [THEN conjunct2, THEN conjunct2, THEN conjunct2, THEN conjunct1]
    by (simp add: power2_eq_square)
  note g5 = g [THEN conjunct2, THEN conjunct2, THEN conjunct2, THEN conjunct2, THEN conjunct1,
      rule_format, of 1 2]
  have c3: "vertices (GenerateMesh mesh_example) ! 7 = (0, 0, - 2.5)"
    and c4: "texCoords (GenerateMesh mesh_example) ! 7 = (0.5, 0.25)"
    using g5 by (simp_all add: sz)
  note g6 = g [THEN conjunct2, THEN conjunct2, THEN conjunct2, THEN conjunct2, THEN conjunct2,
      rule_format, of 1 2]
  have c5: "take 6 (drop 36 (indices (GenerateMesh mesh_example))) = [7, 12, 8, 8, 12, 13]"
    using g6 by simp
  have c6: "vertices (GenerateMesh (mesh_example\<lparr> time := 3, vertices := [(1, 2, 3)] \<rparr>)) =
     vertices (GenerateMesh mesh_example)"
    using d by (rule conjunct1)
  from c1 c2 c3 c4 c5 c6 show ?thesis by simp
qed

section \<open>The vertex shaders against the CPU evaluator\<close>

lemma ocean_vert_waves_map:
  "ocean_vert_waves u = map (ocean_vert_wave u) [0..<nat (min (u_numWaves u) 8)]"
  by (simp add: ocean_vert_waves_def fold_snoc_map)

lemma ocean_vert_wave_eq:
  "ocean_vert_wave \<lparr> u_time = t, u_windDirection = windDirection cfg, u_windSpeed = windSpeed cfg,
       u_waveAmplitude = waveAmplitude cfg, u_waveFrequency = waveFrequency cfg,
       u_numWaves = numWaves cfg \<rparr> i = GenerateWaveSet_wave cfg i"
  by (simp add: ocean_vert_wave_def GenerateWaveSet_wave_def Let_def)

lemma take_upt_min: "take m [0..<n] = [0..<min m n]"
proof (cases "m \<le> n")
  case True
  then show ?thesis using take_upt [of 0 m n] by (simp add: min_def)
next
  case False
  then show ?thesis by (simp add: min_def)
qed

text \<open>
  Claim C1, as stated: for every position, time and wave configuration the displacement
  of the CPU evaluator and that of the vertex shader agree to within \<open>10\<^sup>\<minus>\<^sup>4\<close>. The
  shader that \<^verbatim>\<open>Ocean::Initialize\<close> loads is \<^verbatim>\<open>ocean_simple.vert\<close>. For the
  one-wave configuration, at the origin and time zero, the CPU evaluator displaces by
  \<open>(2000, 0, 0)\<close> and \<^verbatim>\<open>SampleWaveHeight\<close> returns 0, while the shader moves the vertex
  at the origin to \<open>(0, 0.05, 0)\<close>.
\<close>

theorem ocean_simple_vert_differs:
  "fst (CalculateGerstnerWave (config single_wave_example) (0, 0)
          (GenerateWaveSet (config single_wave_example) ! 0) 0 (1, 0, 0) (0, 0, 1)) = (2000, 0, 0) \<and>
   SampleWaveHeight single_wave_example 0 0 0 = 0 \<and>
   ocean_simple_vert_main 0 (waveAmplitude (config single_wave_example)) (0, 0, 0) = (0, 0.05, 0) \<and>
   \<not> \<bar>SampleWaveHeight single_wave_example 0 0 0 -
       fst (snd (ocean_simple_vert_main 0 (waveAmplitude (config single_wave_example)) (0, 0, 0)))\<bar>
       \<le> 0.0001"
proof -
  have w: "GenerateWaveSet (config single_wave_example) ! 0 =
      \<lparr> direction = (1, 0), amplitude = 1, frequency = 0.02, phase = 0, steepness = 40 \<rparr>"
    by (simp add: GenerateWaveSet_nth single_wave_example_def Ocean_new_def OceanConfig_default_def
        GenerateWaveSet_wave_def normalize2_def dot2_def mix2_def Let_def)
  have k: "numWaves (config single_wave_example) = 1" "waveAmplitude (config single_wave_example) = 1"
    by (simp_all add: single_wave_example_def)
  have cpu: "fst (CalculateGerstnerWave (config single_wave_example) (0, 0)
          (GenerateWaveSet (config single_wave_example) ! 0) 0 (1, 0, 0) (0, 0, 1)) = (2000, 0, 0)"
    by (simp add: w k CalculateGerstnerWave_def normalize2_def dot2_def Let_def)
  have h: "SampleWaveHeight single_wave_example 0 0 0 = 0"
    by (simp add: SampleWaveHeight_def GenerateWaveSet_map single_wave_example_def Ocean_new_def
        OceanConfig_default_def GenerateWaveSet_wave_def normalize2_def dot2_def mix2_def Let_def)
  have gpu: "ocean_simple_vert_main 0 (waveAmplitude (config single_wave_example)) (0, 0, 0) = (0, 0.05, 0)"
    by (simp add: k ocean_simple_vert_main_def)
  show ?thesis by (simp add: cpu h gpu)
qed

text \<open>
  Claim C1, amended: in exact arithmetic, \<^verbatim>\<open>Ocean::CalculateGerstnerWave\<close> and the
  function \<^verbatim>\<open>GerstnerWave\<close> of \<^verbatim>\<open>ocean.vert\<close> return the same displacement,
  tangent and binormal for the same wave, position, time and wave count, when the
  wave has a positive frequency, a non-zero amplitude and a non-zero direction and the
  wave count is positive (the divisors of both functions); and for a configuration
  with a wave count that is not negative (\<^verbatim>\<open>GenerateWaveSet\<close> throws otherwise) and
  a non-zero base frequency, base amplitude and wind direction, the waves that
  \<^verbatim>\<open>main\<close> of \<^verbatim>\<open>ocean.vert\<close> builds from the uniforms of the configuration are the
  first eight of \<^verbatim>\<open>Ocean::GenerateWaveSet\<close>.
\<close>

theorem CalculateGerstnerWave_eq_ocean_vert:
  "(0 < numWaves cfg \<and> 0 < frequency w \<and> amplitude w \<noteq> 0 \<and> direction w \<noteq> (0, 0) \<longrightarrow>
      CalculateGerstnerWave cfg pos w t tangent binormal =
        GerstnerWave (numWaves cfg) pos w t tangent binormal) \<and>
   (0 \<le> numWaves cfg \<and> waveFrequency cfg \<noteq> 0 \<and> waveAmplitude cfg \<noteq> 0 \<and>
    windDirection cfg \<noteq> (0, 0) \<longrightarrow>
      ocean_vert_waves \<lparr> u_time = t, u_windDirection = windDirection cfg, u_windSpeed = windSpeed cfg,
          u_waveAmplitude = waveAmplitude cfg, u_waveFrequency = waveFrequency cfg,
          u_numWaves = numWaves cfg \<rparr> = take 8 (GenerateWaveSet cfg))"
proof -
  have a: "CalculateGerstnerWave cfg pos w t tangent binormal =
     GerstnerWave (numWaves cfg) pos w t tangent binormal"
    by (simp add: CalculateGerstnerWave_def GerstnerWave_def)
  have "take 8 (GenerateWaveSet cfg) = map (GenerateWaveSet_wave cfg) [0..<min (nat (numWaves cfg)) 8]"
    by (simp only: GenerateWaveSet_map take_map take_upt_min min.commute)
  moreover have "nat (min (numWaves cfg) 8) = min (nat (numWaves cfg)) 8"
    by (simp add: min_def) linarith
  ultimately have b: "ocean_vert_waves \<lparr> u_time = t, u_windDirection = windDirection cfg, u_windSpeed = windSpeed cfg,
       u_waveAmplitude = waveAmplitude cfg, u_waveFrequency = waveFrequency cfg,
       u_numWaves = numWaves cfg \<rparr> = take 8 (GenerateWaveSet cfg)"
    by (simp add: ocean_vert_waves_map ocean_vert_wave_eq)
  from a b show ?thesis by simp
qed

text \<open>The one-wave configuration and a wave of frequency 0.02 along \<open>x\<close>.\<close>

theorem CalculateGerstnerWave_eq_ocean_vert_witness:
  "CalculateGerstnerWave (config single_wave_example) (3, 4) wave_example 2 (1, 0, 0) (0, 0, 1) =
     GerstnerWave (numWaves (config single_wave_example)) (3, 4) wave_example 2 (1, 0, 0) (0, 0, 1) \<and>
   ocean_vert_waves \<lparr> u_time = 2, u_windDirection = windDirection (config single_wave_example),
       u_windSpeed = windSpeed (config single_wave_example),
       u_waveAmplitude = waveAmplitude (config single_wave_example),
       u_waveFrequency = waveFrequency (config single_wave_example),
       u_numWaves = numWaves (config single_wave_example) \<rparr> =
     take 8 (GenerateWaveSet (config single_wave_example))"
proof -
  have w: "0 < numWaves (config single_wave_example) \<and> 0 < frequency wave_example \<and>
      amplitude wave_example \<noteq> 0 \<and> direction wave_example \<noteq> (0, 0)"
    by (simp add: single_wave_example_def wave_example_def)
  have c: "0 \<le> numWaves (config single_wave_example) \<and>
      waveFrequency (config single_wave_example) \<noteq> 0 \<and>
      waveAmplitude (config single_wave_example) \<noteq> 0 \<and>
      windDirection (config single_wave_example) \<noteq> (0, 0)"
    by (simp add: single_wave_example_def)
  note t = CalculateGerstnerWave_eq_ocean_vert [of "config single_wave_example" wave_example
      "(3, 4)" 2 "(1, 0, 0)" "(0, 0, 1)"]
  from t [THEN conjunct1, THEN mp, OF w] t [THEN conjunct2, THEN mp, OF c]
  show ?thesis by (rule conjI)
qed

section \<open>Properties of the spectral ocean\<close>

subsection \<open>Powers of two\<close>

lemma pow2_and_pred: "(2::int) ^ k AND (2 ^ k - 1) = 0"
proof -
  have "(2::int) ^ k - 1 = mask k" by (simp add: mask_eq_exp_minus_1)
  then have "(2::int) ^ k AND (2 ^ k - 1) = take_bit k (2 ^ k)"
    by (simp add: take_bit_eq_mask)
  also have "\<dots> = 0" by (simp add: take_bit_eq_mod)
  finally show ?thesis .
qed

lemma and_pred_zero_pow2:
  fixes v :: int
  assumes "0 < v" and "v AND (v - 1) = 0"
  shows "\<exists>k. v = 2 ^ k"
  using assms
proof (induction "nat v" arbitrary: v rule: less_induct)
  case less
  show ?case
  proof (cases "even v")
    case True
    define w where "w = v div 2"
    have v: "v = 2 * w" using True by (simp add: w_def)
    have wpos: "0 < w" using less.prems(1) v by simp
    have "(v - 1) div 2 = w - 1" using v by simp
    then have "v AND (v - 1) = 2 * (w AND (w - 1))"
      using True by (subst and_int_rec) (simp add: w_def)
    then have "w AND (w - 1) = 0" using less.prems(2) by simp
    moreover have "nat w < nat v" using wpos v by simp
    ultimately obtain k where "w = 2 ^ k" using less.hyps wpos by blast
    then have "v = 2 ^ Suc k" using v by simp
    then show ?thesis by blast
  next
    case False
    define w where "w = v div 2"
    have v: "v = 2 * w + 1" using False by (simp add: w_def)
    have "(v - 1) div 2 = w" using v by simp
    moreover have "even (v - 1)" using False by simp
    ultimately have "v AND (v - 1) = 2 * (w AND w)"
      by (subst and_int_rec) (simp add: w_def)
    then have "w = 0" using less.prems(2) by simp
    then have "v = 2 ^ 0" using v by simp
    then show ?thesis by blast
  qed
qed

lemma IsPowerOfTwo_iff: "IsPowerOfTwo v \<longleftrightarrow> (\<exists>k. v = 2 ^ k)"
proof
  assume "IsPowerOfTwo v"
  then show "\<exists>k. v = 2 ^ k" by (simp add: IsPowerOfTwo_def and_pred_zero_pow2)
next
  assume "\<exists>k. v = 2 ^ k"
  then obtain k where "v = 2 ^ k" ..
  then show "IsPowerOfTwo v" by (simp add: IsPowerOfTwo_def pow2_and_pred)
qed

subsection \<open>\<^verbatim>\<open>OceanFFT::Initialize\<close>\<close>

lemma fold_field:
  "(\<And>x t. h (f x t) = h t) \<Longrightarrow> h (fold f xs s) = h s"
  by (induction xs arbitrary: s) simp_all

lemma fold2_field:
  assumes "\<And>x y t. h (f x y t) = h t"
  shows "h (fold (\<lambda>x. fold (f x) ys) xs s) = h s"
  by (rule fold_field) (rule fold_field, rule assms)

lemma CreateGeometry_fst: "fst (CreateGeometry s) = True"
  by (simp add: CreateGeometry_def Let_def)

lemma CreateGeometry_fields:
  "config_fft (snd (CreateGeometry s)) = config_fft s"
  "waveParams (snd (CreateGeometry s)) = waveParams s"
  "initialSpectrum (snd (CreateGeometry s)) = initialSpectrum s"
  "gaussianDist (snd (CreateGeometry s)) = gaussianDist s"
  "rng (snd (CreateGeometry s)) = rng s"
  "time_fft (snd (CreateGeometry s)) = time_fft s"
  by (simp_all add: CreateGeometry_def Let_def fold2_field CreateGeometry_vertex_def CreateGeometry_cell_def)

lemma GenerateInitialSpectrum_cell_config:
  "config_fft (GenerateInitialSpectrum_cell m n t) = config_fft t"
  by (simp add: GenerateInitialSpectrum_cell_def GetGaussianRandom_def Let_def)

lemma GenerateInitialSpectrum_config:
  "config_fft (GenerateInitialSpectrum s) = config_fft s"
  by (simp add: GenerateInitialSpectrum_def Let_def fold2_field GenerateInitialSpectrum_cell_config)

lemma OceanFFT_Initialize_invalid:
  assumes "\<not> IsPowerOfTwo (N cfg)"
  shows "OceanFFT_Initialize shader_ok cfg s =
           (False, (if isInitialized_fft s then OceanFFT_Cleanup s else s)\<lparr> config_fft := cfg \<rparr>)"
  using assms by (simp add: OceanFFT_Initialize_def Let_def)

lemma OceanFFT_Initialize_valid:
  assumes "IsPowerOfTwo (N cfg)"
  shows "OceanFFT_Initialize shader_ok cfg s =
           (let s1 = (if isInitialized_fft s then OceanFFT_Cleanup s else s)\<lparr> config_fft := cfg \<rparr>;
                s2 = snd (CreateGeometry s1)
            in if shader_ok then (True, (GenerateInitialSpectrum s2)\<lparr> isInitialized_fft := True \<rparr>)
               else (False, s2))"
  using assms
  by (simp add: OceanFFT_Initialize_def Let_def CreateTextures_def CreateFramebuffers_def
      InitializeShaders_def CreateGeometry_fields split_beta CreateGeometry_fst)


lemma OceanFFT_Initialize_success_fields:
  assumes "IsPowerOfTwo (N cfg)"
  shows "isInitialized_fft (snd (OceanFFT_Initialize True cfg s))"
    and "config_fft (snd (OceanFFT_Initialize True cfg s)) = cfg"
  using assms
  by (simp_all add: OceanFFT_Initialize_valid Let_def GenerateInitialSpectrum_config CreateGeometry_fields)

lemma small_surface_fields:
  "isInitialized_fft small_surface"
  "config_fft small_surface = OceanFFT_OceanConfig_default\<lparr> N := 2, enableChoppiness := False \<rparr>"
  by (simp_all add: small_surface_def OceanFFT_Initialize_success_fields IsPowerOfTwo_def)

text \<open>
  Claim C2, as stated: \<^verbatim>\<open>Initialize\<close> returns failure when \<open>N\<close> is not a power of two
  and success when it is. With \<open>N = 64\<close> and rendering shaders that cannot be loaded it
  returns failure.
\<close>

theorem OceanFFT_Initialize_power_of_two_shader_failure:
  "IsPowerOfTwo (N (OceanFFT_OceanConfig_default\<lparr> N := 64 \<rparr>)) \<and>
   \<not> fst (OceanFFT_Initialize False (OceanFFT_OceanConfig_default\<lparr> N := 64 \<rparr>)
            (OceanFFT_new gauss_example order_example))"
  by (simp add: OceanFFT_Initialize_valid IsPowerOfTwo_def Let_def)

text \<open>
  Claim C2, amended: \<^verbatim>\<open>Initialize\<close> returns failure when \<open>N\<close> is not a power of two
  (so for 100, 300 and 513), and then the spectrum, the random source and the geometry
  are as before the call: the validation precedes spectrum generation. When \<open>N\<close> is a
  power of two (with \<open>N\<^sup>2\<close> below \<open>2\<^sup>3\<^sup>1\<close>, so that the int arithmetic of the source
  does not overflow; so for 64, 128, 512 and 1024) it returns success exactly when
  the rendering shaders could be loaded.
\<close>

theorem OceanFFT_Initialize_power_of_two:
  "(\<not> (\<exists>k. N cfg = 2 ^ k) \<longrightarrow>
      \<not> fst (OceanFFT_Initialize shader_ok cfg s) \<and>
      initialSpectrum (snd (OceanFFT_Initialize shader_ok cfg s)) = initialSpectrum s \<and>
      rng (snd (OceanFFT_Initialize shader_ok cfg s)) = rng s \<and>
      vertices_fft (snd (OceanFFT_Initialize shader_ok cfg s)) = vertices_fft s \<and>
      indices_fft (snd (OceanFFT_Initialize shader_ok cfg s)) = indices_fft s) \<and>
   ((\<exists>k. N cfg = 2 ^ k) \<and> N cfg * N cfg < 2 ^ 31 \<longrightarrow>
      fst (OceanFFT_Initialize shader_ok cfg s) = shader_ok) \<and>
   (N cfg \<in> {100, 300, 513} \<longrightarrow> \<not> fst (OceanFFT_Initialize shader_ok cfg s)) \<and>
   (N cfg \<in> {64, 128, 512, 1024} \<longrightarrow> fst (OceanFFT_Initialize shader_ok cfg s) = shader_ok)"
proof -
  have a: "\<not> fst (OceanFFT_Initialize shader_ok cfg s) \<and>
      initialSpectrum (snd (OceanFFT_Initialize shader_ok cfg s)) = initialSpectrum s \<and>
      rng (snd (OceanFFT_Initialize shader_ok cfg s)) = rng s \<and>
      vertices_fft (snd (OceanFFT_Initialize shader_ok cfg s)) = vertices_fft s \<and>
      indices_fft (snd (OceanFFT_Initialize shader_ok cfg s)) = indices_fft s"
    if "\<not> IsPowerOfTwo (N cfg)"
    using that by (simp add: OceanFFT_Initialize_invalid OceanFFT_Cleanup_def)
  have b: "fst (OceanFFT_Initialize shader_ok cfg s) = shader_ok" if "IsPowerOfTwo (N cfg)"
    using that by (simp add: OceanFFT_Initialize_valid Let_def)
  have c: "\<not> IsPowerOfTwo (N cfg)" if "N cfg \<in> {100, 300, 513}"
    using that by (auto simp add: IsPowerOfTwo_def)
  have d: "IsPowerOfTwo (N cfg)" if "N cfg \<in> {64, 128, 512, 1024}"
    using that by (auto simp add: IsPowerOfTwo_def)
  from a b c d show ?thesis by (simp only: IsPowerOfTwo_iff [symmetric]) blast
qed

text \<open>Resolutions 100, 64 and 1024 on a freshly constructed surface, shaders loading.\<close>

theorem OceanFFT_Initialize_power_of_two_witness:
  "\<not> fst (OceanFFT_Initialize True (OceanFFT_OceanConfig_default\<lparr> N := 100 \<rparr>) (OceanFFT_new gauss_example order_example)) \<and>
   rng (snd (OceanFFT_Initialize True (OceanFFT_OceanConfig_default\<lparr> N := 100 \<rparr>) (OceanFFT_new gauss_example order_example))) = 0 \<and>
   fst (OceanFFT_Initialize True (OceanFFT_OceanConfig_default\<lparr> N := 64 \<rparr>) (OceanFFT_new gauss_example order_example)) \<and>
   fst (OceanFFT_Initialize True (OceanFFT_OceanConfig_default\<lparr> N := 1024 \<rparr>) (OceanFFT_new gauss_example order_example))"
proof -
  note t100 = OceanFFT_Initialize_power_of_two [of "OceanFFT_OceanConfig_default\<lparr> N := 100 \<rparr>" True
      "OceanFFT_new gauss_example order_example"]
  note t64 = OceanFFT_Initialize_power_of_two [of "OceanFFT_OceanConfig_default\<lparr> N := 64 \<rparr>" True
      "OceanFFT_new gauss_example order_example"]
  note t1024 = OceanFFT_Initialize_power_of_two [of "OceanFFT_OceanConfig_default\<lparr> N := 1024 \<rparr>" True
      "OceanFFT_new gauss_example order_example"]
  have p64: "\<exists>k. N (OceanFFT_OceanConfig_default\<lparr> N := 64 \<rparr>) = 2 ^ k"
    by (rule exI [of _ 6]) simp
  have b64: "N (OceanFFT_OceanConfig_default\<lparr> N := 64 \<rparr>) * N (OceanFFT_OceanConfig_default\<lparr> N := 64 \<rparr>)
      < 2 ^ 31" by simp
  have m100: "N (OceanFFT_OceanConfig_default\<lparr> N := 100 \<rparr>) \<in> {100, 300, 513}" by simp
  have m1024: "N (OceanFFT_OceanConfig_default\<lparr> N := 1024 \<rparr>) \<in> {64, 128, 512, 1024}" by simp
  have "\<not> IsPowerOfTwo 100" by (simp add: IsPowerOfTwo_def)
  then have "\<not> (\<exists>k. (100::int) = 2 ^ k)" unfolding IsPowerOfTwo_iff .
  then have np100: "\<not> (\<exists>k. N (OceanFFT_OceanConfig_default\<lparr> N := 100 \<rparr>) = 2 ^ k)"
    by simp
  from t100 m100 have "\<not> fst (OceanFFT_Initialize True (OceanFFT_OceanConfig_default\<lparr> N := 100 \<rparr>) (OceanFFT_new gauss_example order_example))"
    by blast
  moreover from t100 np100 have "rng (snd (OceanFFT_Initialize True (OceanFFT_OceanConfig_default\<lparr> N := 100 \<rparr>) (OceanFFT_new gauss_example order_example))) = rng (OceanFFT_new gauss_example order_example)"
    by blast
  moreover from t64 p64 b64 have "fst (OceanFFT_Initialize True (OceanFFT_OceanConfig_default\<lparr> N := 64 \<rparr>) (OceanFFT_new gauss_example order_example))"
    by blast
  moreover from t1024 m1024 have "fst (OceanFFT_Initialize True (OceanFFT_OceanConfig_default\<lparr> N := 1024 \<rparr>) (OceanFFT_new gauss_example order_example))"
    by blast
  ultimately show ?thesis by (simp add: OceanFFT_new_def)
qed


text \<open>
  Claim C5, as stated: a call with an invalid configuration returns failure and leaves
  the stored configuration, the spectrum and the initialization status unchanged.
  \<^verbatim>\<open>OceanFFT::Initialize\<close> with \<open>N = 100\<close> fails, but the stored configuration is the
  new one, and a surface that was initialized no longer is.
\<close>

theorem OceanFFT_Initialize_invalid_mutates:
  "\<not> fst (OceanFFT_Initialize True (OceanFFT_OceanConfig_default\<lparr> N := 100 \<rparr>) (OceanFFT_new gauss_example order_example)) \<and>
   config_fft (snd (OceanFFT_Initialize True (OceanFFT_OceanConfig_default\<lparr> N := 100 \<rparr>)
                     (OceanFFT_new gauss_example order_example))) \<noteq> config_fft (OceanFFT_new gauss_example order_example) \<and>
   isInitialized_fft small_surface \<and>
   \<not> isInitialized_fft (snd (OceanFFT_Initialize True (OceanFFT_OceanConfig_default\<lparr> N := 100 \<rparr>) small_surface))"
  by (simp add: OceanFFT_Initialize_invalid IsPowerOfTwo_def OceanFFT_new_def OceanFFT_Cleanup_def
      OceanFFT_OceanConfig_default_def small_surface_fields)

text \<open>
  Claim C5, amended: when \<^verbatim>\<open>OceanFFT::Initialize\<close> is called with an \<open>N\<close> that is not
  a power of two it returns failure, stores the new configuration and leaves the
  surface uninitialized; the spectrum, the wave parameters, the geometry, the time and
  the random source are unchanged. \<^verbatim>\<open>Ocean::SetConfig\<close> reports nothing and always
  stores the configuration it is given; on a surface that is not initialized it
  changes nothing else.
\<close>

theorem OceanFFT_Initialize_invalid_state:
  "(\<not> IsPowerOfTwo (N cfg) \<longrightarrow>
      \<not> fst (OceanFFT_Initialize shader_ok cfg s) \<and>
      config_fft (snd (OceanFFT_Initialize shader_ok cfg s)) = cfg \<and>
      \<not> isInitialized_fft (snd (OceanFFT_Initialize shader_ok cfg s)) \<and>
      initialSpectrum (snd (OceanFFT_Initialize shader_ok cfg s)) = initialSpectrum s \<and>
      waveParams (snd (OceanFFT_Initialize shader_ok cfg s)) = waveParams s \<and>
      vertices_fft (snd (OceanFFT_Initialize shader_ok cfg s)) = vertices_fft s \<and>
      indices_fft (snd (OceanFFT_Initialize shader_ok cfg s)) = indices_fft s \<and>
      time_fft (snd (OceanFFT_Initialize shader_ok cfg s)) = time_fft s \<and>
      gaussianDist (snd (OceanFFT_Initialize shader_ok cfg s)) = gaussianDist s \<and>
      rng (snd (OceanFFT_Initialize shader_ok cfg s)) = rng s) \<and>
   config (Ocean_SetConfig ocfg os) = ocfg \<and>
   time (Ocean_SetConfig ocfg os) = time os \<and>
   isInitialized (Ocean_SetConfig ocfg os) = isInitialized os \<and>
   (\<not> isInitialized os \<longrightarrow> Ocean_SetConfig ocfg os = os\<lparr> config := ocfg \<rparr>)"
  by (simp add: OceanFFT_Initialize_invalid OceanFFT_Cleanup_def Ocean_SetConfig_def Let_def
      UpdateMeshData_def GenerateMesh_closed)

text \<open>Resolution 300 on an initialized surface, and a configuration change on a new ocean.\<close>

theorem OceanFFT_Initialize_invalid_state_witness:
  "\<not> fst (OceanFFT_Initialize True (OceanFFT_OceanConfig_default\<lparr> N := 300 \<rparr>) small_surface) \<and>
   N (config_fft (snd (OceanFFT_Initialize True (OceanFFT_OceanConfig_default\<lparr> N := 300 \<rparr>) small_surface))) = 300 \<and>
   \<not> isInitialized_fft (snd (OceanFFT_Initialize True (OceanFFT_OceanConfig_default\<lparr> N := 300 \<rparr>) small_surface)) \<and>
   initialSpectrum (snd (OceanFFT_Initialize True (OceanFFT_OceanConfig_default\<lparr> N := 300 \<rparr>) small_surface)) =
     initialSpectrum small_surface \<and>
   Ocean_SetConfig (OceanConfig_default\<lparr> resolution := - 2 \<rparr>) Ocean_new =
     Ocean_new\<lparr> config := OceanConfig_default\<lparr> resolution := - 2 \<rparr> \<rparr>"
proof -
  have inv: "\<not> IsPowerOfTwo (N (OceanFFT_OceanConfig_default\<lparr> N := 300 \<rparr>))"
    by (simp add: IsPowerOfTwo_def)
  have un: "\<not> isInitialized Ocean_new" by (simp add: Ocean_new_def)
  note t = OceanFFT_Initialize_invalid_state [of "OceanFFT_OceanConfig_default\<lparr> N := 300 \<rparr>" True
      small_surface "OceanConfig_default\<lparr> resolution := - 2 \<rparr>" Ocean_new]
  from t inv un show ?thesis by simp
qed

subsection \<open>The sampling queries\<close>

text \<open>
  Claim C10. On a spectral surface that is not initialized, \<^verbatim>\<open>SampleHeight\<close> returns 0,
  \<^verbatim>\<open>SampleNormal\<close> the up vector and \<^verbatim>\<open>SampleDisplacement\<close> the zero vector,
  whatever the arguments; \<^verbatim>\<open>SampleDisplacement\<close> also returns the zero vector
  whenever choppiness is disabled.
\<close>

theorem OceanFFT_uninitialized_queries:
  "(\<not> isInitialized_fft s \<longrightarrow>
      SampleHeight s x z t = 0 \<and> SampleNormal s x z t = (0, 1, 0) \<and> SampleDisplacement s x z t = (0, 0)) \<and>
   (\<not> enableChoppiness (config_fft s) \<longrightarrow> SampleDisplacement s x z t = (0, 0))"
  by (simp add: SampleHeight_def SampleNormal_def SampleDisplacement_def)

text \<open>A freshly constructed surface, and an initialized one without choppiness.\<close>

theorem OceanFFT_uninitialized_queries_witness:
  "SampleHeight (OceanFFT_new gauss_example order_example) 1 2 3 = 0 \<and>
   SampleNormal (OceanFFT_new gauss_example order_example) 1 2 3 = (0, 1, 0) \<and>
   SampleDisplacement (OceanFFT_new gauss_example order_example) 1 2 3 = (0, 0) \<and>
   isInitialized_fft small_surface \<and>
   SampleDisplacement small_surface 1 2 3 = (0, 0)"
proof -
  have u: "\<not> isInitialized_fft (OceanFFT_new gauss_example order_example)" by (simp add: OceanFFT_new_def)
  have c: "\<not> enableChoppiness (config_fft small_surface)" by (simp add: small_surface_fields)
  from OceanFFT_uninitialized_queries [of "OceanFFT_new gauss_example order_example" 1 2 3] u
    OceanFFT_uninitialized_queries [of small_surface 1 2 3] c small_surface_fields(1)
  show ?thesis by blast
qed


subsection \<open>\<^verbatim>\<open>OceanFFT::PhillipsSpectrum\<close>\<close>

lemma length2_axis: "length2 (a, 0) = \<bar>a\<bar>"
  by (simp add: length2_def dot2_def)

lemma normalize2_axis: "0 < a \<Longrightarrow> normalize2 (a, 0) = (1, 0)"
  by (simp add: normalize2_def dot2_def)

lemma length2_less_iff: "0 < c \<Longrightarrow> length2 v < c \<longleftrightarrow> dot2 v v < c\<^sup>2"
proof -
  assume c: "0 < c"
  have nn: "0 \<le> dot2 v v" by (simp add: dot2_def)
  have "sqrt (dot2 v v) < c \<longleftrightarrow> sqrt (dot2 v v) < sqrt (c\<^sup>2)" using c by simp
  also have "\<dots> \<longleftrightarrow> dot2 v v < c\<^sup>2" by (rule real_sqrt_less_iff)
  finally show ?thesis by (simp add: length2_def)
qed

lemma PhillipsSpectrum_small: "length2 k < 0.000001 \<Longrightarrow> PhillipsSpectrum s k = 0"
  by (simp add: PhillipsSpectrum_def Let_def)

text \<open>
  Claim C3, as stated: zero at the zero wavevector, and the reference formula for
  every \<open>k\<close> with \<open>|k| > 0\<close>. The wavevector \<open>(5 \<cdot> 10\<^sup>\<minus>\<^sup>7, 0)\<close> is not zero, the
  reference formula is not zero there (wind of speed 3000 along \<open>x\<close>), and the code
  returns 0.
\<close>

theorem PhillipsSpectrum_small_wavevector:
  "0 < length2 (0.0000005, 0) \<and>
   PhillipsSpectrum phillips_example (0.0000005, 0) = 0 \<and>
   PhillipsSpectrum phillips_example (0.0000005, 0) \<noteq>
     PhillipsSpectrum_reference (waveParams phillips_example) (0.0000005, 0)"
proof -
  have code: "PhillipsSpectrum phillips_example (0.0000005, 0) = 0"
    by (rule PhillipsSpectrum_small) (simp add: length2_axis)
  have ref: "PhillipsSpectrum_reference (waveParams phillips_example) (0.0000005, 0) \<noteq> 0"
    by (simp add: PhillipsSpectrum_reference_def length2_axis normalize2_axis phillips_example_def
        OceanFFT_new_def WaveParameters_default_def dot2_def Let_def)
  have pos: "0 < length2 (0.0000005, 0)" by (simp add: length2_axis)
  from pos code ref show ?thesis by simp
qed

text \<open>
  Claim C3, amended: \<^verbatim>\<open>PhillipsSpectrum\<close> returns exactly 0 for the zero wavevector
  and for every \<open>k\<close> with \<open>|k| < 10\<^sup>\<minus>\<^sup>6\<close>, before any division and whatever the wave
  parameters; for every \<open>k\<close> with \<open>|k| \<ge> 10\<^sup>\<minus>\<^sup>6\<close> and wave parameters with a
  non-zero wind speed, wind direction and gravity (the divisors) it returns the
  reference formula.
\<close>

theorem PhillipsSpectrum_reference_eq:
  "PhillipsSpectrum s (0, 0) = 0 \<and>
   (length2 k < 0.000001 \<longrightarrow> PhillipsSpectrum s k = 0) \<and>
   (\<not> length2 k < 0.000001 \<and> windSpeed_wp (waveParams s) \<noteq> (0, 0) \<and>
    windDirection_wp (waveParams s) \<noteq> (0, 0) \<and> gravity (waveParams s) \<noteq> 0 \<longrightarrow>
      PhillipsSpectrum s k = PhillipsSpectrum_reference (waveParams s) k)"
proof -
  have zero: "PhillipsSpectrum s (0, 0) = 0"
    by (simp add: PhillipsSpectrum_def length2_def dot2_def)
  have small: "PhillipsSpectrum s k = 0" if "length2 k < 0.000001"
    using that by (rule PhillipsSpectrum_small)
  have eq: "PhillipsSpectrum s k = PhillipsSpectrum_reference (waveParams s) k"
    if big: "\<not> length2 k < 0.000001"
  proof -
    have nz: "length2 k \<noteq> 0" using big by auto
    have norm: "(fst k / length2 k, snd k / length2 k) = normalize2 k"
      by (simp add: normalize2_def length2_def)
    show ?thesis
      using big nz
      by (simp add: PhillipsSpectrum_def PhillipsSpectrum_reference_def Let_def norm
          power2_eq_square power4_eq_xxxx mult.assoc)
  qed
  from zero small eq show ?thesis by blast
qed

text \<open>The default wave parameters, at a short and at a unit wavevector.\<close>

theorem PhillipsSpectrum_reference_eq_witness:
  "PhillipsSpectrum (OceanFFT_new gauss_example order_example) (0.0000005, 0) = 0 \<and>
   PhillipsSpectrum (OceanFFT_new gauss_example order_example) (1, 0) =
     PhillipsSpectrum_reference (waveParams (OceanFFT_new gauss_example order_example)) (1, 0)"
proof -
  have small: "length2 (0.0000005, 0) < 0.000001" by (simp add: length2_axis)
  have big: "\<not> length2 (1, 0) < 0.000001 \<and>
      windSpeed_wp (waveParams (OceanFFT_new gauss_example order_example)) \<noteq> (0, 0) \<and>
      windDirection_wp (waveParams (OceanFFT_new gauss_example order_example)) \<noteq> (0, 0) \<and>
      gravity (waveParams (OceanFFT_new gauss_example order_example)) \<noteq> 0"
    by (simp add: length2_axis OceanFFT_new_def WaveParameters_default_def)
  from PhillipsSpectrum_reference_eq [of "OceanFFT_new gauss_example order_example" "(0.0000005, 0)",
      THEN conjunct2, THEN conjunct1, THEN mp, OF small]
    PhillipsSpectrum_reference_eq [of "OceanFFT_new gauss_example order_example" "(1, 0)",
      THEN conjunct2, THEN conjunct2, THEN mp, OF big]
  show ?thesis by (rule conjI)
qed


subsection \<open>\<^verbatim>\<open>OceanFFT::GenerateInitialSpectrum\<close>\<close>

lemma fold_grid:
  "fold (\<lambda>m. fold (\<lambda>n. f m n) [0..<b]) [0..<a] s = fold (\<lambda>i. f (i div b) (i mod b)) [0..<a * b] s"
proof (induction a)
  case 0
  then show ?case by simp
next
  case (Suc a)
  have "[0..<a * b + b] = [0..<a * b] @ [a * b..<a * b + b]"
    by (rule upt_add_eq_append) simp
  moreover have "[a * b..<a * b + b] = map (\<lambda>n. n + a * b) [0..<b]"
    by (simp only: map_add_upt add.commute [of b])
  ultimately have split: "[0..<Suc a * b] = [0..<a * b] @ map (\<lambda>n. n + a * b) [0..<b]"
    by (simp only: mult_Suc add.commute [of b])
  have row: "fold (\<lambda>i. f (i div b) (i mod b)) (map (\<lambda>n. n + a * b) [0..<b]) t = fold (f a) [0..<b] t" for t
  proof -
    have "fold (\<lambda>i. f (i div b) (i mod b)) (map (\<lambda>n. n + a * b) [0..<b]) t =
          fold (\<lambda>n. f ((n + a * b) div b) ((n + a * b) mod b)) [0..<b] t"
      by (simp only: fold_map comp_def)
    also have "\<dots> = fold (f a) [0..<b] t"
      by (rule fold_cong) simp_all
    finally show ?thesis .
  qed
  have "fold (\<lambda>m. fold (\<lambda>n. f m n) [0..<b]) [0..<Suc a] s =
        fold (f a) [0..<b] (fold (\<lambda>m. fold (\<lambda>n. f m n) [0..<b]) [0..<a] s)"
    by simp
  also have "\<dots> = fold (f a) [0..<b] (fold (\<lambda>i. f (i div b) (i mod b)) [0..<a * b] s)"
    by (simp only: Suc.IH)
  also have "\<dots> = fold (\<lambda>i. f (i div b) (i mod b)) [0..<Suc a * b] s"
    by (simp only: split fold_append comp_apply row)
  finally show ?case .
qed


lemma GetWaveVector_cong:
  "config_fft t = config_fft s \<Longrightarrow> GetWaveVector t n m = GetWaveVector s n m"
  by (simp add: GetWaveVector_def)

lemma PhillipsSpectrum_cong:
  "waveParams t = waveParams s \<Longrightarrow> PhillipsSpectrum t k = PhillipsSpectrum s k"
  unfolding PhillipsSpectrum_def by (simp only:)

lemma draws_before_Suc:
  "draws_before s (Suc c) = (if zero_cell s c then draws_before s c else Suc (draws_before s c))"
  by (simp add: draws_before_def)

lemma draws_before_mono: "c \<le> c' \<Longrightarrow> draws_before s c \<le> draws_before s c'"
  by (induction c' ) (auto simp add: draws_before_Suc le_Suc_eq)

lemma GenerateInitialSpectrum_cell_step:
  assumes cfg: "config_fft t = config_fft s" and wp: "waveParams t = waveParams s"
    and n: "N (config_fft s) = int M" and pos: "0 < M"
  shows "GenerateInitialSpectrum_cell (c div M) (c mod M) t =
           (if zero_cell s c then t\<lparr> initialSpectrum := (initialSpectrum t)[c := Cplx 0 0] \<rparr>
            else t\<lparr> rng := rng t + 2,
                    initialSpectrum := (initialSpectrum t)
                      [c := Cplx (gaussianDist t (if real_first t (rng t) then rng t else rng t + 1) *
                                   sqrt (PhillipsSpectrum s (GetWaveVector s (int (c mod M)) (int (c div M))) * 0.5))
                                 (gaussianDist t (if real_first t (rng t) then rng t + 1 else rng t) *
                                   sqrt (PhillipsSpectrum s (GetWaveVector s (int (c mod M)) (int (c div M))) * 0.5))] \<rparr>)"
proof -
  have idx: "nat (int (c div M) * N (config_fft t) + int (c mod M)) = c"
  proof -
    have "int (c div M) * int M + int (c mod M) = int (c div M * M + c mod M)"
      by (simp only: of_nat_add of_nat_mult)
    also have "\<dots> = int c" by simp
    finally have "int (c div M) * int M + int (c mod M) = int c" .
    then show ?thesis by (simp only: cfg n nat_int)
  qed
  have k: "GetWaveVector t (int (c mod M)) (int (c div M)) = GetWaveVector s (int (c mod M)) (int (c div M))"
    using cfg by (rule GetWaveVector_cong)
  have z: "zero_cell s c = (length2 (GetWaveVector s (int (c mod M)) (int (c div M))) < 0.000001)"
    by (simp add: zero_cell_def n)
  show ?thesis
    unfolding GenerateInitialSpectrum_cell_def Let_def idx k z PhillipsSpectrum_cong [OF wp]
    by (simp add: GetGaussianRandom_def Cplx_mul_def)
qed

lemma GenerateInitialSpectrum_steps:
  assumes n: "N (config_fft s) = int M" and pos: "0 < M"
    and cfg: "config_fft s1 = config_fft s" and wp: "waveParams s1 = waveParams s"
    and g: "gaussianDist s1 = gaussianDist s" and r: "rng s1 = rng s"
    and o: "real_first s1 = real_first s"
    and len: "length (initialSpectrum s1) = M * M"
    and c: "c \<le> M * M"
  shows "config_fft (fold (\<lambda>i. GenerateInitialSpectrum_cell (i div M) (i mod M)) [0..<c] s1) = config_fft s \<and>
         waveParams (fold (\<lambda>i. GenerateInitialSpectrum_cell (i div M) (i mod M)) [0..<c] s1) = waveParams s \<and>
         gaussianDist (fold (\<lambda>i. GenerateInitialSpectrum_cell (i div M) (i mod M)) [0..<c] s1) = gaussianDist s \<and>
         real_first (fold (\<lambda>i. GenerateInitialSpectrum_cell (i div M) (i mod M)) [0..<c] s1) = real_first s \<and>
         length (initialSpectrum (fold (\<lambda>i. GenerateInitialSpectrum_cell (i div M) (i mod M)) [0..<c] s1)) = M * M \<and>
         rng (fold (\<lambda>i. GenerateInitialSpectrum_cell (i div M) (i mod M)) [0..<c] s1) =
           rng s + 2 * draws_before s c \<and>
         (\<forall>i<c. initialSpectrum (fold (\<lambda>i. GenerateInitialSpectrum_cell (i div M) (i mod M)) [0..<c] s1) ! i =
            spectrum_cell s i)"
  using c
proof (induction c)
  case 0
  then show ?case using cfg wp g r o len by (simp add: draws_before_def)
next
  case (Suc c)
  define t where "t = fold (\<lambda>i. GenerateInitialSpectrum_cell (i div M) (i mod M)) [0..<c] s1"
  have ih: "config_fft t = config_fft s" "waveParams t = waveParams s"
    "gaussianDist t = gaussianDist s" "real_first t = real_first s"
    "length (initialSpectrum t) = M * M"
    "rng t = rng s + 2 * draws_before s c"
    "\<And>i. i < c \<Longrightarrow> initialSpectrum t ! i = spectrum_cell s i"
    using Suc by (simp_all add: t_def)
  have cl: "c < length (initialSpectrum t)" using Suc.prems ih(5) by simp
  have next_state: "fold (\<lambda>i. GenerateInitialSpectrum_cell (i div M) (i mod M)) [0..<Suc c] s1 =
        GenerateInitialSpectrum_cell (c div M) (c mod M) t"
    by (simp add: t_def)
  note step = GenerateInitialSpectrum_cell_step [OF ih(1) ih(2) n pos, of c]
  have cellc: "spectrum_cell s c =
      (if zero_cell s c then Cplx 0 0
       else Cplx (gaussianDist t (if real_first t (rng t) then rng t else rng t + 1) *
                   sqrt (PhillipsSpectrum s (GetWaveVector s (int (c mod M)) (int (c div M))) * 0.5))
                 (gaussianDist t (if real_first t (rng t) then rng t + 1 else rng t) *
                   sqrt (PhillipsSpectrum s (GetWaveVector s (int (c mod M)) (int (c div M))) * 0.5)))"
    by (simp add: spectrum_cell_def draw_index_def zero_cell_def n ih(3) ih(4) ih(6) Let_def)
  show ?case
  proof (cases "zero_cell s c")
    case True
    then show ?thesis
      unfolding next_state step
      using ih cl cellc by (simp add: draws_before_Suc nth_list_update less_Suc_eq)
  next
    case False
    then show ?thesis
      unfolding next_state step
      using ih cl cellc by (simp add: draws_before_Suc nth_list_update less_Suc_eq)
  qed
qed

lemma int_div_two: "0 < M \<Longrightarrow> int_div (int M) 2 = int (M div 2)"
  by (simp add: int_div_def zdiv_int)

lemma grid_index_less:
  assumes "m < (M::nat)" and "n < M"
  shows "m * M + n < M * M"
proof -
  have "m * M + n < Suc m * M" using assms(2) by simp
  also have "\<dots> \<le> M * M" using assms(1) by (intro mult_le_mono1) simp
  finally show ?thesis .
qed

lemma draws_before_0: "draws_before s 0 = 0"
  by (simp add: draws_before_def)

lemma draws_before_strict:
  assumes "i < j" and "\<not> zero_cell s i"
  shows "draws_before s i < draws_before s j"
proof -
  have "draws_before s i < draws_before s (Suc i)" using assms(2) by (simp add: draws_before_Suc)
  also have "\<dots> \<le> draws_before s j" using assms(1) by (intro draws_before_mono) simp
  finally show ?thesis .
qed


lemma GenerateInitialSpectrum_result:
  assumes n: "N (config_fft s) = int M" and pos: "0 < M"
  shows "length (initialSpectrum (GenerateInitialSpectrum s)) = M * M"
    and "rng (GenerateInitialSpectrum s) = rng s + 2 * draws_before s (M * M)"
    and "i < M * M \<Longrightarrow> initialSpectrum (GenerateInitialSpectrum s) ! i = spectrum_cell s i"
proof -
  define s1 where "s1 = s\<lparr> initialSpectrum := resize_spectrum (initialSpectrum s) (M * M) \<rparr>"
  have nn: "nat (N (config_fft s) * N (config_fft s)) = M * M" "nat (N (config_fft s)) = M"
    using n by (simp_all add: nat_mult_distrib)
  have gen: "GenerateInitialSpectrum s =
      fold (\<lambda>i. GenerateInitialSpectrum_cell (i div M) (i mod M)) [0..<M * M] s1"
    by (simp add: GenerateInitialSpectrum_def Let_def nn s1_def fold_grid)
  have s1: "config_fft s1 = config_fft s" "waveParams s1 = waveParams s"
    "gaussianDist s1 = gaussianDist s" "rng s1 = rng s" "real_first s1 = real_first s"
    "length (initialSpectrum s1) = M * M"
    by (simp_all add: s1_def resize_spectrum_def)
  note st = GenerateInitialSpectrum_steps [OF n pos s1, of "M * M", folded gen, simplified]
  from st show "length (initialSpectrum (GenerateInitialSpectrum s)) = M * M"
    and "rng (GenerateInitialSpectrum s) = rng s + 2 * draws_before s (M * M)"
    by blast+
  from st show "i < M * M \<Longrightarrow> initialSpectrum (GenerateInitialSpectrum s) ! i = spectrum_cell s i"
    by blast
qed

lemma zero_cell_source: "zero_cell (s\<lparr> gaussianDist := g \<rparr>) = zero_cell s"
  by (intro ext) (simp add: zero_cell_def GetWaveVector_def)

lemma draws_before_source: "draws_before (s\<lparr> gaussianDist := g \<rparr>) = draws_before s"
  by (intro ext) (simp add: draws_before_def zero_cell_source)

lemma draw_index_source: "draw_index (s\<lparr> gaussianDist := g \<rparr>) = draw_index s"
  by (intro ext) (simp add: draw_index_def draws_before_source)

lemma draw_index_bounds:
  "rng s + 2 * draws_before s i \<le> draw_index s i re"
  "draw_index s i re \<le> rng s + 2 * draws_before s i + 1"
  by (simp_all add: draw_index_def Let_def)

lemma draw_index_parts: "draw_index s i True \<noteq> draw_index s i False"
  by (simp add: draw_index_def Let_def)

lemma draw_index_inj:
  "inj_on (\<lambda>(i, re). draw_index s i re) {(i, re). \<not> zero_cell s i}"
proof (rule inj_onI, clarify)
  fix i re i' re'
  assume z: "\<not> zero_cell s i" and z': "\<not> zero_cell s i'"
    and eq: "draw_index s i re = draw_index s i' re'"
  have less: "draw_index s a p < draw_index s b q" if "a < b" "\<not> zero_cell s a" for a b p q
  proof -
    have "draw_index s a p \<le> rng s + 2 * draws_before s a + 1" by (rule draw_index_bounds)
    also have "\<dots> < rng s + 2 * draws_before s b"
      using draws_before_strict [OF that] by simp
    also have "\<dots> \<le> draw_index s b q" by (rule draw_index_bounds)
    finally show ?thesis .
  qed
  have "i = i'"
  proof (rule ccontr)
    assume "i \<noteq> i'"
    then consider "i < i'" | "i' < i" by linarith
    then show False
    proof cases
      case 1
      from less [OF 1 z, of re re'] eq show False by simp
    next
      case 2
      from less [OF 2 z', of re' re] eq show False by simp
    qed
  qed
  moreover have "re = re'"
    using eq \<open>i = i'\<close> draw_index_parts [of s i] by (cases re; cases re') auto
  ultimately show "i = i' \<and> re = re'" by simp
qed

lemma indep_family_reindex:
  fixes f :: "'i \<Rightarrow> 'k" and I :: "'i set"
  assumes inj: "inj_on f I" and ind: "indep_family P X UNIV"
  shows "indep_family P (\<lambda>i. X (f i)) I"
  unfolding indep_family_def
proof (intro allI impI, elim conjE)
  fix J :: "'i set" and x :: "'i \<Rightarrow> real"
  assume fin: "finite J" and sub: "J \<subseteq> I"
  have injJ: "inj_on f J" using inj sub by (rule inj_on_subset)
  define y where "y = (\<lambda>k. x (the_inv_into J f k))"
  have yx: "y (f j) = x j" if "j \<in> J" for j
    using that injJ by (simp add: y_def the_inv_into_f_f)
  have ev: "{w. \<forall>j\<in>J. X (f j) w \<le> x j} = {w. \<forall>k\<in>f ` J. X k w \<le> y k}"
    using yx by auto
  have "finite (f ` J) \<and> f ` J \<subseteq> UNIV" using fin by simp
  then have "P {w. \<forall>k\<in>f ` J. X k w \<le> y k} = (\<Prod>k\<in>f ` J. P {w. X k w \<le> y k})"
    by (rule ind [unfolded indep_family_def, rule_format])
  also have "\<dots> = (\<Prod>j\<in>J. P {w. X (f j) w \<le> y (f j)})"
    using injJ by (simp add: prod.reindex)
  also have "\<dots> = (\<Prod>j\<in>J. P {w. X (f j) w \<le> x j})"
    by (rule prod.cong) (simp_all add: yx)
  finally show "P {w. \<forall>j\<in>J. X (f j) w \<le> x j} = (\<Prod>j\<in>J. P {w. X (f j) w \<le> x j})"
    by (simp only: ev)
qed

text \<open>
  The example sample space: every box has the product of the standard normal
  distribution function at its bounds as its probability, so that the coordinates are
  independent and standard normal.
\<close>

lemma box_bounded_coords:
  "bdd_above ((\<lambda>w. w j) ` {w :: nat \<Rightarrow> real. \<forall>j\<in>J. w j \<le> x j}) \<longleftrightarrow> j \<in> J"
proof
  assume b: "bdd_above ((\<lambda>w. w j) ` {w. \<forall>j\<in>J. w j \<le> x j})"
  show "j \<in> J"
  proof (rule ccontr)
    assume nj: "j \<notin> J"
    from b obtain c where c: "\<And>w. (\<forall>j\<in>J. w j \<le> x j) \<Longrightarrow> w j \<le> c"
      unfolding bdd_above_def by auto
    have "\<forall>k\<in>J. (x(j := c + 1)) k \<le> x k" using nj by auto
    then have "(x(j := c + 1)) j \<le> c" by (rule c)
    then show False by simp
  qed
next
  assume "j \<in> J"
  then show "bdd_above ((\<lambda>w. w j) ` {w. \<forall>j\<in>J. w j \<le> x j})"
    by (intro bdd_aboveI [of _ "x j"]) auto
qed

lemma box_sup:
  assumes "j \<in> J"
  shows "Sup ((\<lambda>w. w j) ` {w :: nat \<Rightarrow> real. \<forall>j\<in>J. w j \<le> x j}) = x j"
proof (rule cSup_eq_maximum)
  show "x j \<in> (\<lambda>w. w j) ` {w. \<forall>j\<in>J. w j \<le> x j}" by (rule image_eqI [of _ _ x]) simp_all
next
  fix y assume "y \<in> (\<lambda>w. w j) ` {w. \<forall>j\<in>J. w j \<le> x j}"
  then show "y \<le> x j" using assms by auto
qed

lemma P_example_box:
  "P_example {w. \<forall>j\<in>J. w j \<le> x j} = (\<Prod>j\<in>J. std_normal_cdf (x j))"
proof -
  have "{j. bdd_above ((\<lambda>w. w j) ` {w :: nat \<Rightarrow> real. \<forall>j\<in>J. w j \<le> x j})} = J"
    by (simp add: box_bounded_coords)
  then have "P_example {w. \<forall>j\<in>J. w j \<le> x j} =
      (\<Prod>j\<in>J. std_normal_cdf (Sup ((\<lambda>w. w j) ` {w. \<forall>j\<in>J. w j \<le> x j})))"
    by (simp add: P_example_def)
  also have "\<dots> = (\<Prod>j\<in>J. std_normal_cdf (x j))"
    by (rule prod.cong) (simp_all add: box_sup)
  finally show ?thesis .
qed

lemma P_example_cdf: "has_cdf P_example (X_example r) std_normal_cdf"
proof -
  have "P_example {w. X_example r w \<le> t} = std_normal_cdf t" for t
    using P_example_box [of "{r}" "\<lambda>_. t"] by (simp add: X_example_def)
  then show ?thesis by (simp add: has_cdf_def)
qed

lemma P_example_indep: "indep_family P_example X_example UNIV"
proof -
  have "P_example {w. \<forall>j\<in>J. X_example j w \<le> x j} = (\<Prod>j\<in>J. P_example {w. X_example j w \<le> x j})"
    for J x
  proof -
    have "P_example {w. \<forall>j\<in>J. X_example j w \<le> x j} = (\<Prod>j\<in>J. std_normal_cdf (x j))"
      using P_example_box [of J x] by (simp add: X_example_def)
    also have "\<dots> = (\<Prod>j\<in>J. P_example {w. X_example j w \<le> x j})"
      using P_example_cdf by (simp add: has_cdf_def)
    finally show ?thesis .
  qed
  then show ?thesis by (simp add: indep_family_def)
qed


text \<open>
  Claim C4. \<^verbatim>\<open>GenerateInitialSpectrum\<close> fills every cell \<open>(n, m)\<close> of the \<open>N \<times> N\<close>
  spectrum, stored at index \<open>m N + n\<close>, and this for every random source \<open>g\<close>. The
  wavevector of the cell is \<open>2 PI (index \<minus> N/2) / oceanSize\<close> in each axis, with the
  integer quotient \<open>N/2\<close> and the constant \<^verbatim>\<open>PI\<close> of the source. A cell whose
  wavevector is shorter than \<open>10\<^sup>\<minus>\<^sup>6\<close> is set to complex zero. Every other cell is
  set to a complex sample scaled by \<open>sqrt (Phillips(k) / 2)\<close>: its real and its
  imaginary part are the two draws \<open>j\<close> and \<open>j + 1\<close> that the cell takes from the
  source, in the order of evaluation that the compiler chose, whichever it is; which
  draw goes where does not depend on the numbers drawn, and no draw goes to two places.

  The samples are independent and standard normal in this sense. Let \<open>X r w\<close> be the
  \<open>r\<close>-th number that \<^verbatim>\<open>gaussianDist(rng)\<close> returns in the outcome \<open>w\<close>, so that the
  source of the outcome \<open>w\<close> is \<open>g = (\<lambda>r. X r w)\<close> and the part \<open>re\<close> of the sample of
  cell \<open>i\<close> is \<open>X (draw_index s i re) w\<close>. If the numbers drawn are independent and
  standard normal, which is what the standard library promises of
  \<^verbatim>\<open>std::normal_distribution<float>(0.0f, 1.0f)\<close>, then the real and imaginary parts
  of the samples of all the cells that are not zeroed are independent and standard
  normal.

  The hypotheses are the range in which the definitions are the program: a positive
  \<open>N\<close> with \<open>N\<^sup>2\<close> below \<open>2\<^sup>3\<^sup>1\<close> (no overflow of the int arithmetic), a non-zero
  ocean size, wind speed, wind direction and gravity (no division by zero), and an
  amplitude scale that is not negative (no square root of a negative number).
\<close>

theorem GenerateInitialSpectrum_cells:
  fixes X :: "nat \<Rightarrow> 'w \<Rightarrow> real"
  assumes n: "N (config_fft s) = int M" and pos: "0 < M" and ovf: "M * M < 2 ^ 31"
    and size: "oceanSize (config_fft s) \<noteq> 0"
    and speed: "windSpeed_wp (waveParams s) \<noteq> (0, 0)"
    and dir: "windDirection_wp (waveParams s) \<noteq> (0, 0)"
    and grav: "gravity (waveParams s) \<noteq> 0"
    and amp: "0 \<le> A_wp (waveParams s)"
  shows "(\<forall>g.
      length (initialSpectrum (GenerateInitialSpectrum (s\<lparr> gaussianDist := g \<rparr>))) = M * M \<and>
      rng (GenerateInitialSpectrum (s\<lparr> gaussianDist := g \<rparr>)) = rng s + 2 * draws_before s (M * M) \<and>
      (\<forall>m n. m < M \<and> n < M \<longrightarrow>
         GetWaveVector s (int n) (int m) =
           (2 * PI * (real n - real (M div 2)) / oceanSize (config_fft s),
            2 * PI * (real m - real (M div 2)) / oceanSize (config_fft s)) \<and>
         initialSpectrum (GenerateInitialSpectrum (s\<lparr> gaussianDist := g \<rparr>)) ! (m * M + n) =
           (if length2 (GetWaveVector s (int n) (int m)) < 0.000001 then Cplx 0 0
            else Cplx (g (draw_index s (m * M + n) True) *
                         sqrt (PhillipsSpectrum s (GetWaveVector s (int n) (int m)) / 2))
                      (g (draw_index s (m * M + n) False) *
                         sqrt (PhillipsSpectrum s (GetWaveVector s (int n) (int m)) / 2))))) \<and>
    (\<forall>i. {draw_index s i True, draw_index s i False} =
          {rng s + 2 * draws_before s i, rng s + 2 * draws_before s i + 1}) \<and>
    inj_on (\<lambda>(i, re). draw_index s i re) {(i, re). \<not> zero_cell s i} \<and>
    (indep_family P X UNIV \<and> (\<forall>r. has_cdf P (X r) std_normal_cdf) \<longrightarrow>
       indep_family P (\<lambda>(i, re). X (draw_index s i re)) {(i, re). i < M * M \<and> \<not> zero_cell s i} \<and>
       (\<forall>i re. has_cdf P (X (draw_index s i re)) std_normal_cdf))"
proof -
  have cells: "length (initialSpectrum (GenerateInitialSpectrum (s\<lparr> gaussianDist := g \<rparr>))) = M * M \<and>
      rng (GenerateInitialSpectrum (s\<lparr> gaussianDist := g \<rparr>)) = rng s + 2 * draws_before s (M * M) \<and>
      (\<forall>m n. m < M \<and> n < M \<longrightarrow>
         GetWaveVector s (int n) (int m) =
           (2 * PI * (real n - real (M div 2)) / oceanSize (config_fft s),
            2 * PI * (real m - real (M div 2)) / oceanSize (config_fft s)) \<and>
         initialSpectrum (GenerateInitialSpectrum (s\<lparr> gaussianDist := g \<rparr>)) ! (m * M + n) =
           (if length2 (GetWaveVector s (int n) (int m)) < 0.000001 then Cplx 0 0
            else Cplx (g (draw_index s (m * M + n) True) *
                         sqrt (PhillipsSpectrum s (GetWaveVector s (int n) (int m)) / 2))
                      (g (draw_index s (m * M + n) False) *
                         sqrt (PhillipsSpectrum s (GetWaveVector s (int n) (int m)) / 2))))" for g
  proof -
    define t where "t = s\<lparr> gaussianDist := g \<rparr>"
    have tn: "N (config_fft t) = int M" using n by (simp add: t_def)
    have tc: "config_fft t = config_fft s" and tw: "waveParams t = waveParams s"
      and tr: "rng t = rng s" and tg: "gaussianDist t = g"
      by (simp_all add: t_def)
    note res = GenerateInitialSpectrum_result [OF tn pos]
    have len: "length (initialSpectrum (GenerateInitialSpectrum t)) = M * M" by (rule res(1))
    have r: "rng (GenerateInitialSpectrum t) = rng s + 2 * draws_before s (M * M)"
      using res(2) by (simp add: tr t_def draws_before_source)
    have cell: "GetWaveVector s (int n) (int m) =
           (2 * PI * (real n - real (M div 2)) / oceanSize (config_fft s),
            2 * PI * (real m - real (M div 2)) / oceanSize (config_fft s)) \<and>
         initialSpectrum (GenerateInitialSpectrum t) ! (m * M + n) =
           (if length2 (GetWaveVector s (int n) (int m)) < 0.000001 then Cplx 0 0
            else Cplx (g (draw_index s (m * M + n) True) *
                         sqrt (PhillipsSpectrum s (GetWaveVector s (int n) (int m)) / 2))
                      (g (draw_index s (m * M + n) False) *
                         sqrt (PhillipsSpectrum s (GetWaveVector s (int n) (int m)) / 2)))"
      if mn: "m < M" "n < M" for m n
    proof -
      have i: "m * M + n < M * M" using mn by (rule grid_index_less)
      have dm: "(m * M + n) div M = m" "(m * M + n) mod M = n" using mn by simp_all
      have nn: "nat (N (config_fft t)) = M" using tn by simp
      have di: "draw_index t = draw_index s" by (simp add: t_def draw_index_source)
      have kv: "GetWaveVector t (int n) (int m) = GetWaveVector s (int n) (int m)"
        using tc by (rule GetWaveVector_cong)
      have ph: "PhillipsSpectrum t (GetWaveVector s (int n) (int m)) =
          PhillipsSpectrum s (GetWaveVector s (int n) (int m))"
        using tw by (rule PhillipsSpectrum_cong)
      have "initialSpectrum (GenerateInitialSpectrum t) ! (m * M + n) = spectrum_cell t (m * M + n)"
        using i by (rule res(3))
      also have "\<dots> =
           (if length2 (GetWaveVector s (int n) (int m)) < 0.000001 then Cplx 0 0
            else Cplx (g (draw_index s (m * M + n) True) *
                         sqrt (PhillipsSpectrum s (GetWaveVector s (int n) (int m)) / 2))
                      (g (draw_index s (m * M + n) False) *
                         sqrt (PhillipsSpectrum s (GetWaveVector s (int n) (int m)) / 2)))"
        by (simp only: spectrum_cell_def nn dm Let_def kv ph di tg) simp
      finally have c: "initialSpectrum (GenerateInitialSpectrum t) ! (m * M + n) =
           (if length2 (GetWaveVector s (int n) (int m)) < 0.000001 then Cplx 0 0
            else Cplx (g (draw_index s (m * M + n) True) *
                         sqrt (PhillipsSpectrum s (GetWaveVector s (int n) (int m)) / 2))
                      (g (draw_index s (m * M + n) False) *
                         sqrt (PhillipsSpectrum s (GetWaveVector s (int n) (int m)) / 2)))" .
      have "GetWaveVector s (int n) (int m) =
           (2 * PI * (real n - real (M div 2)) / oceanSize (config_fft s),
            2 * PI * (real m - real (M div 2)) / oceanSize (config_fft s))"
        by (simp add: GetWaveVector_def n int_div_two [OF pos] Let_def)
      with c show ?thesis by (rule conjI [rotated])
    qed
    from len r cell show ?thesis unfolding t_def by blast
  qed
  have pair: "{draw_index s i True, draw_index s i False} =
          {rng s + 2 * draws_before s i, rng s + 2 * draws_before s i + 1}" for i
    by (auto simp add: draw_index_def Let_def)
  have sub: "{(i, re). i < M * M \<and> \<not> zero_cell s i} \<subseteq> {(i, re). \<not> zero_cell s i}"
    by auto
  have inj: "inj_on (\<lambda>(i, re). draw_index s i re) {(i, re). i < M * M \<and> \<not> zero_cell s i}"
    using draw_index_inj sub by (rule inj_on_subset)
  have prob: "indep_family P (\<lambda>(i, re). X (draw_index s i re)) {(i, re). i < M * M \<and> \<not> zero_cell s i} \<and>
       (\<forall>i re. has_cdf P (X (draw_index s i re)) std_normal_cdf)"
    if ind: "indep_family P X UNIV" and cdf: "\<forall>r. has_cdf P (X r) std_normal_cdf"
  proof -
    have "indep_family P (\<lambda>p. X ((\<lambda>(i, re). draw_index s i re) p))
        {(i, re). i < M * M \<and> \<not> zero_cell s i}"
      using inj ind by (rule indep_family_reindex)
    moreover have "(\<lambda>p. X ((\<lambda>(i, re). draw_index s i re) p)) = (\<lambda>(i, re). X (draw_index s i re))"
      by (simp add: fun_eq_iff)
    ultimately show ?thesis using cdf by simp
  qed
  from cells pair draw_index_inj prob show ?thesis by blast
qed

text \<open>
  A surface of two by two cells with the example source, the second argument evaluated
  first: the last cell is the zero wavevector, the first cell has draw 1 in its
  real part and draw 0 in its imaginary part.
\<close>

theorem GenerateInitialSpectrum_cells_witness:
  "length (initialSpectrum (GenerateInitialSpectrum spectrum_example)) = 4 \<and>
   GetWaveVector spectrum_example 1 1 = (0, 0) \<and>
   initialSpectrum (GenerateInitialSpectrum spectrum_example) ! 3 = Cplx 0 0 \<and>
   initialSpectrum (GenerateInitialSpectrum spectrum_example) ! 0 =
     Cplx (gauss_example 1 * sqrt (PhillipsSpectrum spectrum_example (GetWaveVector spectrum_example 0 0) / 2))
          (gauss_example 0 * sqrt (PhillipsSpectrum spectrum_example (GetWaveVector spectrum_example 0 0) / 2)) \<and>
   indep_family P_example (\<lambda>(i, re). X_example (draw_index spectrum_example i re))
     {(i, re). i < 2 * 2 \<and> \<not> zero_cell spectrum_example i} \<and>
   has_cdf P_example (X_example (draw_index spectrum_example 0 True)) std_normal_cdf"
proof -
  have n: "N (config_fft spectrum_example) = int 2" by (simp add: spectrum_example_def)
  have pos: "0 < (2::nat)" and ovf: "2 * 2 < (2::nat) ^ 31" by simp_all
  have size: "oceanSize (config_fft spectrum_example) \<noteq> 0"
    by (simp add: spectrum_example_def OceanFFT_OceanConfig_default_def)
  have speed: "windSpeed_wp (waveParams spectrum_example) \<noteq> (0, 0)"
    and dir: "windDirection_wp (waveParams spectrum_example) \<noteq> (0, 0)"
    and grav: "gravity (waveParams spectrum_example) \<noteq> 0"
    and amp: "0 \<le> A_wp (waveParams spectrum_example)"
    by (simp_all add: spectrum_example_def OceanFFT_new_def WaveParameters_default_def)
  note t = GenerateInitialSpectrum_cells [OF n pos ovf size speed dir grav amp,
      where P = P_example and X = X_example]
  have self: "spectrum_example\<lparr> gaussianDist := gauss_example \<rparr> = spectrum_example"
    by (simp add: spectrum_example_def OceanFFT_new_def)
  note st = t [THEN conjunct1, rule_format, of gauss_example, unfolded self]
  have r0: "rng spectrum_example = 0" "real_first spectrum_example = order_example"
    by (simp_all add: spectrum_example_def OceanFFT_new_def)
  have d0: "draw_index spectrum_example 0 True = 1" "draw_index spectrum_example 0 False = 0"
    by (simp_all add: draw_index_def draws_before_0 r0 order_example_def)
  have k11: "GetWaveVector spectrum_example 1 1 = (0, 0)"
    by (simp add: GetWaveVector_def spectrum_example_def int_div_def)
  have "(length2 (GetWaveVector spectrum_example 0 0) < 0.000001) =
        (dot2 (GetWaveVector spectrum_example 0 0) (GetWaveVector spectrum_example 0 0) < 0.000001\<^sup>2)"
    by (rule length2_less_iff) simp
  also have "\<dots> = False"
    by (simp add: GetWaveVector_def spectrum_example_def int_div_def dot2_def
        OceanFFT_OceanConfig_default_def PI_def power2_eq_square)
  finally have k00: "\<not> length2 (GetWaveVector spectrum_example 0 0) < 0.000001"
    by simp
  have c1: "length (initialSpectrum (GenerateInitialSpectrum spectrum_example)) = 4"
    using st [THEN conjunct1] by simp
  note cell = st [THEN conjunct2, THEN conjunct2, rule_format]
  have c3: "initialSpectrum (GenerateInitialSpectrum spectrum_example) ! 3 = Cplx 0 0"
    using cell [of 1 1] k11 by (simp add: length2_def dot2_def)
  have c0: "initialSpectrum (GenerateInitialSpectrum spectrum_example) ! 0 =
     Cplx (gauss_example 1 * sqrt (PhillipsSpectrum spectrum_example (GetWaveVector spectrum_example 0 0) / 2))
          (gauss_example 0 * sqrt (PhillipsSpectrum spectrum_example (GetWaveVector spectrum_example 0 0) / 2))"
    using cell [of 0 0] k00 by (simp add: d0)
  have hyp: "indep_family P_example X_example UNIV \<and> (\<forall>r. has_cdf P_example (X_example r) std_normal_cdf)"
    using P_example_indep P_example_cdf by simp
  note pr = t [THEN conjunct2, THEN conjunct2, THEN conjunct2, THEN mp, OF hyp]
  have c4: "indep_family P_example (\<lambda>(i, re). X_example (draw_index spectrum_example i re))
     {(i, re). i < 2 * 2 \<and> \<not> zero_cell spectrum_example i}"
    using pr by (rule conjunct1)
  have c5: "has_cdf P_example (X_example (draw_index spectrum_example 0 True)) std_normal_cdf"
    using pr [THEN conjunct2] by (rule allE, elim allE)
  from c1 k11 c3 c0 c4 c5 show ?thesis by simp
qed


end
